theory Spec2Isabelle
  imports Complex_Main
begin

section \<open>The NTNU mat-file parser of pymrio (\<open>pymrio/tools/ntnu.py\<close>)\<close>

text \<open>
  The module defines one dict, \<open>MAT_STRUCTURE\<close>, and one function, \<open>parse_mat\<close>.
  The function is embedded with explicit state passing: the state (\<open>world\<close>) holds what
  a call can read or change outside its own local variables, namely the names bound in
  the module's global namespace, the dict objects reachable by the caller (the one bound
  to \<open>MAT_STRUCTURE\<close>, which is also the default of the parameter \<open>struct\<close>, among
  them), the two functions of \<open>os.path\<close> the code calls, what \<open>scipy.io.loadmat\<close>
  yields for each path, and the log of the paths opened. Every exception is a value of
  the type \<open>error\<close>.
\<close>

subsection \<open>Python values and exceptions\<close>

datatype error =
    NameError string
  | KeyError string
  | IndexError
  | TypeError
  | AttributeError
  | ValueError
  | OSError

text \<open>
  The values found in a container as \<open>loadmat(struct_as_record=False, squeeze_me=True)\<close>
  returns it. A number is a finite double (\<open>PNum\<close>, with the value 0 for the positive
  zero) or one of the four other doubles (\<open>PSpecial\<close>). A numpy array has one or two
  dimensions (a two-dimensional array is the list of its rows). A scipy sparse matrix
  is its shape and the value stored at each position, every position being stored at
  most once, as the file format has it. A \<open>mat_struct\<close> object is the list of the
  entries of its \<open>__dict__\<close>: the fields of the file and the entry \<open>_fieldnames\<close>, a
  Python list (\<open>PList\<close>) of the field names. \<open>PIndexExp k\<close> is the tuple
  \<open>np.index_exp[:, k]\<close>, which only the field map holds.
\<close>

datatype special = NegZero | PosInf | NegInf | NaN

datatype pyval =
    PStr string
  | PNum real
  | PSpecial special
  | PList "pyval list"
  | PArr1 "pyval list"
  | PArr2 "pyval list list"
  | PSparse nat nat "nat \<times> nat \<Rightarrow> pyval option"
  | PStruct "(string \<times> pyval) list"
  | PIndexExp int

text \<open>A value of the field map: a key name (a string) or a column slice \<open>[:, k]\<close>.\<close>

datatype fval = FKey string | FSlice int

type_synonym field_map = "string \<rightharpoonup> fval"

type_synonym container = "string \<rightharpoonup> pyval"

definition MAT_STRUCTURE :: field_map where
  "MAT_STRUCTURE = map_of
    [(''data'', FKey ''IO''),
     (''meta'', FKey ''meta''),
     (''Z'', FKey ''Z''),
     (''Y'', FKey ''Y''),
     (''F'', FKey ''F''),
     (''F_hh'', FKey ''F_hh''),
     (''mon_labels'', FKey ''labsZ''),
     (''mon_sec_slice'', FSlice 1),
     (''mon_reg_slice'', FSlice 5),
     (''mon_unit'', FKey ''unit''),
     (''fd_labels'', FKey ''labsY''),
     (''fd_cat_slice'', FSlice 1),
     (''fd_reg_slice'', FSlice 4),
     (''stress_labels'', FKey ''labsF''),
     (''stress_name_slice'', FSlice 0),
     (''stress_comp_slice'', FSlice 1),
     (''stress_unit_slice'', FSlice 2),
     (''version'', FKey ''ver''),
     (''year'', FKey ''years''),
     (''empty_comp'', FKey ''n/a'')]"

text \<open>
  The names the module's top-level statements bind (lines 5 to 62): its imports, the
  dict and the function. \<open>logging\<close> is not among them, and it is not a builtin.
\<close>

definition module_names :: "string list" where
  "module_names =
    [''os'', ''Path'', ''pd'', ''np'', ''scipy'', ''IOSystem'', ''Extension'',
     ''MRIOMetaData'', ''PYMRIO_PATH'', ''MAT_STRUCTURE'', ''parse_mat'']"

subsection \<open>The state a call runs in\<close>

record world =
  globals :: "string list"
  dicts :: "nat \<Rightarrow> field_map"
  normpath :: "string \<Rightarrow> string"
  dirname :: "string \<Rightarrow> string"
  files :: "string \<Rightarrow> error + container"
  opened :: "string list"

text \<open>The address of the dict bound to \<open>MAT_STRUCTURE\<close>, the default of \<open>struct\<close>.\<close>

definition MAT_STRUCTURE_addr :: nat where
  "MAT_STRUCTURE_addr = 0"

definition ebind :: "error + 'a \<Rightarrow> ('a \<Rightarrow> error + 'b) \<Rightarrow> error + 'b" where
  "ebind m f = (case m of Inl e \<Rightarrow> Inl e | Inr x \<Rightarrow> f x)"

text \<open>Reading a global name: \<open>NameError\<close> when the namespace does not bind it.\<close>

definition lookup_global :: "world \<Rightarrow> string \<Rightarrow> error + unit" where
  "lookup_global w n = (if n \<in> set (globals w) then Inr () else Inl (NameError n))"

text \<open>\<open>scipy.io.loadmat\<close>: reads the file, which the log of opened paths records.\<close>

definition loadmat :: "world \<Rightarrow> string \<Rightarrow> (error + container) \<times> world" where
  "loadmat w p = (files w p, w\<lparr>opened := opened w @ [p]\<rparr>)"

subsection \<open>Dicts, attributes and array indexing\<close>

definition dict_getitem :: "(string \<rightharpoonup> 'v) \<Rightarrow> string \<Rightarrow> error + 'v" where
  "dict_getitem d k = (case d k of None \<Rightarrow> Inl (KeyError k) | Some v \<Rightarrow> Inr v)"

text \<open>
  \<open>struct[k]\<close> used as the key of a dict: a tuple holding a slice is not hashable.
\<close>

definition struct_key :: "field_map \<Rightarrow> string \<Rightarrow> error + string" where
  "struct_key struct k =
     ebind (dict_getitem struct k)
       (\<lambda>v. case v of FKey s \<Rightarrow> Inr s | FSlice _ \<Rightarrow> Inl TypeError)"

text \<open>
  \<open>obj.__dict__\<close>. A \<open>mat_struct\<close> carries the fields of the file. A sparse matrix
  is an object with a \<open>__dict__\<close> too, which holds none of the names of a file (the
  attributes scipy keeps there are left out). Strings, numbers, lists and arrays have
  no \<open>__dict__\<close>.
\<close>

fun py_dict :: "pyval \<Rightarrow> error + container" where
  "py_dict (PStruct fs) = Inr (map_of fs)"
| "py_dict (PSparse r c m) = Inr Map.empty"
| "py_dict _ = Inl AttributeError"

text \<open>\<open>obj.__dict__[struct[k]]\<close>, evaluated from left to right.\<close>

definition meta_field :: "pyval \<Rightarrow> field_map \<Rightarrow> string \<Rightarrow> error + pyval" where
  "meta_field obj struct k =
     ebind (py_dict obj) (\<lambda>d. ebind (struct_key struct k) (\<lambda>s. dict_getitem d s))"

text \<open>
  \<open>tbl[sl]\<close> for \<open>sl\<close> a value of the field map. A column slice of a two-dimensional
  array is the one-dimensional array of that column, with numpy's negative indices;
  everything else raises.
\<close>

fun ndarray_getitem :: "pyval \<Rightarrow> fval \<Rightarrow> error + pyval" where
  "ndarray_getitem (PArr2 rows) (FSlice k) =
     (let n = (case rows of [] \<Rightarrow> 0 | r # _ \<Rightarrow> int (length r));
          j = (if k < 0 then n + k else k)
      in if 0 \<le> j \<and> j < n \<and> list_all (\<lambda>r. nat j < length r) rows
         then Inr (PArr1 (map (\<lambda>r. r ! nat j) rows))
         else Inl IndexError)"
| "ndarray_getitem (PArr2 rows) (FKey s) = Inl IndexError"
| "ndarray_getitem (PArr1 xs) sl = Inl IndexError"
| "ndarray_getitem (PSparse r c m) sl = Inl AttributeError"
| "ndarray_getitem v sl = Inl TypeError"

fun tolist :: "pyval \<Rightarrow> error + pyval list" where
  "tolist (PArr1 xs) = Inr xs"
| "tolist (PArr2 rows) = Inr (map PArr1 rows)"
| "tolist _ = Inl AttributeError"

text \<open>
  \<open>mat_meta.__dict__[struct[labels]][struct[slice]].tolist()\<close> (lines 107 to 125).
\<close>

definition label_column ::
  "pyval \<Rightarrow> field_map \<Rightarrow> string \<Rightarrow> string \<Rightarrow> error + pyval list" where
  "label_column mat_meta struct labels_key slice_key =
     ebind (meta_field mat_meta struct labels_key) (\<lambda>tbl.
     ebind (dict_getitem struct slice_key) (\<lambda>sl.
     ebind (ndarray_getitem tbl sl) tolist))"

subsection \<open>The compartment and unit of each stressor row (lines 126 to 131)\<close>

fun py_len :: "pyval \<Rightarrow> error + nat" where
  "py_len (PStr s) = Inr (length s)"
| "py_len (PList xs) = Inr (length xs)"
| "py_len (PArr1 xs) = Inr (length xs)"
| "py_len (PArr2 rows) = Inr (length rows)"
| "py_len _ = Inl TypeError"

fun cfg_value :: "fval \<Rightarrow> pyval" where
  "cfg_value (FKey s) = PStr s"
| "cfg_value (FSlice k) = PIndexExp k"

text \<open>
  \<open>[struct['empty_comp'] if len(unit) == 0 else orig_comp for unit, orig_comp in zip(...)]\<close>:
  the rows in order, the sentinel looked up only on a row whose unit has length 0.
\<close>

fun stress_comp :: "field_map \<Rightarrow> (pyval \<times> pyval) list \<Rightarrow> error + pyval list" where
  "stress_comp struct [] = Inr []"
| "stress_comp struct ((unit, orig_comp) # rest) =
     ebind (py_len unit) (\<lambda>n.
     ebind (if n = 0
            then ebind (dict_getitem struct ''empty_comp'') (\<lambda>v. Inr (cfg_value v))
            else Inr orig_comp) (\<lambda>c.
     ebind (stress_comp struct rest) (\<lambda>cs. Inr (c # cs))))"

fun is_str :: "pyval \<Rightarrow> bool" where
  "is_str (PStr s) = True"
| "is_str _ = False"

text \<open>
  \<open>[unit_orig if type(unit_orig) is str else unit_in_comp for unit_orig, unit_in_comp in zip(...)]\<close>.
\<close>

definition stress_unit :: "(pyval \<times> pyval) list \<Rightarrow> pyval list" where
  "stress_unit rows =
     map (\<lambda>(unit_orig, unit_in_comp). if is_str unit_orig then unit_orig else unit_in_comp) rows"

record label_lists =
  ll_sec :: "pyval list"
  ll_reg :: "pyval list"
  ll_fd_cat :: "pyval list"
  ll_fd_reg :: "pyval list"
  ll_stress_names :: "pyval list"
  ll_stress_comp :: "pyval list"
  ll_stress_unit :: "pyval list"

definition read_labels :: "pyval \<Rightarrow> field_map \<Rightarrow> error + label_lists" where
  "read_labels mat_meta struct =
     ebind (label_column mat_meta struct ''mon_labels'' ''mon_sec_slice'') (\<lambda>sec.
     ebind (label_column mat_meta struct ''mon_labels'' ''mon_reg_slice'') (\<lambda>reg.
     ebind (label_column mat_meta struct ''fd_labels'' ''fd_cat_slice'') (\<lambda>fd_cat.
     ebind (label_column mat_meta struct ''fd_labels'' ''fd_reg_slice'') (\<lambda>fd_reg.
     ebind (label_column mat_meta struct ''stress_labels'' ''stress_name_slice'') (\<lambda>stress_names.
     ebind (label_column mat_meta struct ''stress_labels'' ''stress_comp_slice'') (\<lambda>comp0.
     ebind (label_column mat_meta struct ''stress_labels'' ''stress_unit_slice'') (\<lambda>unit0.
     ebind (stress_comp struct (zip unit0 comp0)) (\<lambda>comp.
     Inr \<lparr>ll_sec = sec, ll_reg = reg, ll_fd_cat = fd_cat, ll_fd_reg = fd_reg,
          ll_stress_names = stress_names, ll_stress_comp = comp,
          ll_stress_unit = stress_unit (zip unit0 comp0)\<rparr>))))))))"

subsection \<open>pandas: label pairs and tables\<close>

text \<open>
  What the model keeps of pandas. \<open>MultiIndex.from_arrays\<close> pairs two label lists of
  one length position by position and hashes every label, so it raises on a label that
  is a list, an array, a sparse matrix or a tuple with a slice. \<open>DataFrame\<close> takes a
  two-dimensional array as it is, a one-dimensional array or a Python list of scalars
  as one column, and fills the table with a scalar; it raises \<open>ValueError\<close> when the
  shape of the data is not that of the labels, and \<open>TypeError\<close> on a sparse matrix.
  What pandas makes of a list that holds arrays is not modelled; the model raises
  there. A label is the list of its levels.
\<close>

type_synonym label = "pyval list"

fun hashable :: "pyval \<Rightarrow> bool" where
  "hashable (PStr s) = True"
| "hashable (PNum x) = True"
| "hashable (PSpecial x) = True"
| "hashable (PStruct fs) = True"
| "hashable _ = False"

definition MultiIndex_from_arrays :: "pyval list \<Rightarrow> pyval list \<Rightarrow> error + label list" where
  "MultiIndex_from_arrays a b =
     (if length a \<noteq> length b then Inl ValueError
      else if \<not> list_all hashable (a @ b) then Inl TypeError
      else Inr (map (\<lambda>(x, y). [x, y]) (zip a b)))"

record dataframe =
  df_index :: "label list"
  df_columns :: "label list"
  df_data :: "pyval list list"

fun is_scalar :: "pyval \<Rightarrow> bool" where
  "is_scalar (PStr s) = True"
| "is_scalar (PNum x) = True"
| "is_scalar (PSpecial x) = True"
| "is_scalar _ = False"

fun DataFrame :: "pyval \<Rightarrow> label list \<Rightarrow> label list \<Rightarrow> error + dataframe" where
  "DataFrame (PArr2 rows) idx cols =
     (if length rows = length idx \<and> list_all (\<lambda>r. length r = length cols) rows
      then Inr \<lparr>df_index = idx, df_columns = cols, df_data = rows\<rparr>
      else Inl ValueError)"
| "DataFrame (PArr1 xs) idx cols =
     (if length xs = length idx \<and> length cols = 1
      then Inr \<lparr>df_index = idx, df_columns = cols, df_data = map (\<lambda>x. [x]) xs\<rparr>
      else Inl ValueError)"
| "DataFrame (PList xs) idx cols =
     (if list_all is_scalar xs \<and> length xs = length idx \<and> length cols = 1
      then Inr \<lparr>df_index = idx, df_columns = cols, df_data = map (\<lambda>x. [x]) xs\<rparr>
      else Inl ValueError)"
| "DataFrame (PSparse r c m) idx cols = Inl TypeError"
| "DataFrame (PIndexExp k) idx cols = Inl ValueError"
| "DataFrame v idx cols =
     Inr \<lparr>df_index = idx, df_columns = cols,
          df_data = replicate (length idx) (replicate (length cols) v)\<rparr>"

text \<open>\<open>DataFrame\<close> on the Python list the function builds (line 189).\<close>

definition DataFrame_of_list :: "pyval list \<Rightarrow> label list \<Rightarrow> label list \<Rightarrow> error + dataframe" where
  "DataFrame_of_list xs idx cols = DataFrame (PList xs) idx cols"

subsection \<open>Sparse matrices\<close>

text \<open>
  \<open>todense\<close> of a sparse matrix: an array of the shape of the matrix, filled with
  zeros, to which the value stored at each position is added. Adding a double to the
  positive zero gives that double, but for the negative zero, which gives the positive
  one.
\<close>

fun zero_plus :: "pyval \<Rightarrow> pyval" where
  "zero_plus (PSpecial NegZero) = PNum 0"
| "zero_plus v = v"

definition todense :: "nat \<Rightarrow> nat \<Rightarrow> (nat \<times> nat \<Rightarrow> pyval option) \<Rightarrow> pyval" where
  "todense r c m =
     PArr2 (map (\<lambda>i. map (\<lambda>j. case m (i, j) of None \<Rightarrow> PNum 0 | Some v \<Rightarrow> zero_plus v)
                        [0..<c]) [0..<r])"

text \<open>\<open>_Z.todense() if scipy.sparse.issparse(_Z) else _Z\<close>.\<close>

fun dense_form :: "pyval \<Rightarrow> pyval" where
  "dense_form (PSparse r c m) = todense r c m"
| "dense_form v = v"

text \<open>
  One table of the data section (lines 147 to 181): the matrix under \<open>struct[key]\<close>,
  made dense, with its row and column labels.
\<close>

definition read_table ::
  "pyval \<Rightarrow> field_map \<Rightarrow> string \<Rightarrow> label list \<Rightarrow> label list \<Rightarrow> error + dataframe" where
  "read_table mat_io struct key idx cols =
     ebind (meta_field mat_io struct key) (\<lambda>m. DataFrame (dense_form m) idx cols)"

subsection \<open>The objects built\<close>

text \<open>
  Modelled from the spec: the classes \<open>IOSystem\<close>, \<open>Extension\<close>
  (\<open>pymrio.core.mriosystem\<close>) and \<open>MRIOMetaData\<close> (\<open>pymrio.tools.iometadata\<close>) are not
  among the sources. The domain object is the container of the attributes the function
  sets (identifier, version, year, system tag, flow matrix, final-demand matrix, unit
  table, satellite accounts); the provenance record is built from a location, a
  description, a name, a system tag and a version, and \<open>_add_fileio\<close> appends one
  free-text line to its log.
\<close>

record extension =
  ext_name :: string
  ext_F :: dataframe
  ext_F_hh :: dataframe
  ext_unit :: dataframe

record iosystem =
  io_name :: string
  io_version :: pyval
  io_year :: pyval
  io_iosystem :: pyval
  io_Z :: dataframe
  io_Y :: dataframe
  io_unit :: dataframe
  io_satellite :: extension

record mrio_meta =
  meta_location :: string
  meta_description :: string
  meta_name :: string
  meta_system :: pyval
  meta_version :: pyval
  meta_history :: "string list"

definition MRIOMetaData :: "string \<Rightarrow> string \<Rightarrow> string \<Rightarrow> pyval \<Rightarrow> pyval \<Rightarrow> mrio_meta" where
  "MRIOMetaData loc descr nm sys ver =
     \<lparr>meta_location = loc, meta_description = descr, meta_name = nm, meta_system = sys,
      meta_version = ver, meta_history = []\<rparr>"

definition add_fileio :: "mrio_meta \<Rightarrow> string \<Rightarrow> mrio_meta" where
  "add_fileio m entry = m\<lparr>meta_history := meta_history m @ [entry]\<rparr>"

subsection \<open>\<open>parse_mat\<close>\<close>

definition build_indices ::
  "world \<Rightarrow> label_lists \<Rightarrow> error + (label list \<times> label list \<times> label list)" where
  "build_indices w ll =
     ebind (lookup_global w ''pd'') (\<lambda>_.
     ebind (MultiIndex_from_arrays (ll_reg ll) (ll_sec ll)) (\<lambda>multiind_mon.
     ebind (MultiIndex_from_arrays (ll_fd_reg ll) (ll_fd_cat ll)) (\<lambda>multiind_fd_col.
     ebind (MultiIndex_from_arrays (ll_stress_names ll) (ll_stress_comp ll)) (\<lambda>multiind_stress_row.
     Inr (multiind_mon, multiind_fd_col, multiind_stress_row)))))"

definition unit_columns :: "label list" where
  "unit_columns = [[PStr ''unit'']]"

text \<open>
  Lines 104 to 219, on the container loaded: the local variables \<open>io_to_py\<close> and
  \<open>meta_rec\<close> as they stand at the \<open>return\<close> statement.
\<close>

definition parse_body ::
  "world \<Rightarrow> container \<Rightarrow> string \<Rightarrow> string \<Rightarrow> pyval \<Rightarrow> field_map \<Rightarrow> error + (iosystem \<times> mrio_meta)" where
  "parse_body w mat_all mat_file nm io_system struct =
     ebind (ebind (struct_key struct ''data'') (dict_getitem mat_all)) (\<lambda>mat_io.
     ebind (ebind (struct_key struct ''meta'') (dict_getitem mat_all)) (\<lambda>mat_meta.
     ebind (read_labels mat_meta struct) (\<lambda>ll.
     ebind (build_indices w ll) (\<lambda>(multiind_mon, multiind_fd_col, multiind_stress_row).
     ebind (meta_field mat_meta struct ''version'') (\<lambda>ss_version.
     ebind (meta_field mat_meta struct ''year'') (\<lambda>ss_year.
     ebind (read_table mat_io struct ''Z'' multiind_mon multiind_mon) (\<lambda>df_Z.
     ebind (read_table mat_io struct ''Y'' multiind_mon multiind_fd_col) (\<lambda>df_Y.
     ebind (read_table mat_io struct ''F'' multiind_stress_row multiind_mon) (\<lambda>df_F.
     ebind (read_table mat_io struct ''F_hh'' multiind_stress_row multiind_fd_col) (\<lambda>df_F_hh.
     ebind (ebind (meta_field mat_meta struct ''mon_unit'')
              (\<lambda>u. DataFrame u multiind_mon unit_columns)) (\<lambda>df_mon_unit.
     ebind (DataFrame_of_list (ll_stress_unit ll) multiind_stress_row unit_columns) (\<lambda>df_F_unit.
     ebind (lookup_global w ''logging'') (\<lambda>_.
     ebind (lookup_global w ''IOSystem'') (\<lambda>_.
     ebind (lookup_global w ''Extension'') (\<lambda>_.
     ebind (lookup_global w ''MRIOMetaData'') (\<lambda>_.
     Inr (\<lparr>io_name = nm, io_version = ss_version, io_year = ss_year,
           io_iosystem = io_system, io_Z = df_Z, io_Y = df_Y, io_unit = df_mon_unit,
           io_satellite =
             \<lparr>ext_name = ''Satellite Accounts'', ext_F = df_F, ext_F_hh = df_F_hh,
              ext_unit = df_F_unit\<rparr>\<rparr>,
          add_fileio
            (MRIOMetaData (dirname w mat_file) ''MRIO parsed from NTNU mat structure''
               nm io_system ss_version)
            (''MAT MRIO structure parsed from '' @ mat_file))))))))))))))))))"

text \<open>
  The call up to the \<open>return\<close> statement: the path is normalised (\<open>os\<close> is read), the
  name \<open>logging\<close> is read for the call of line 99, the file is loaded, and lines 104
  to 219 run on what was loaded. \<open>struct\<close> is the address of the caller's dict.
\<close>

definition parse_mat_frame ::
  "world \<Rightarrow> string \<Rightarrow> string \<Rightarrow> pyval \<Rightarrow> nat \<Rightarrow> (error + (iosystem \<times> mrio_meta)) \<times> world" where
  "parse_mat_frame w mat_file nm io_system struct =
     (case lookup_global w ''os'' of
        Inl e \<Rightarrow> (Inl e, w)
      | Inr _ \<Rightarrow>
     (case lookup_global w ''logging'' of
        Inl e \<Rightarrow> (Inl e, w)
      | Inr _ \<Rightarrow>
     (case lookup_global w ''scipy'' of
        Inl e \<Rightarrow> (Inl e, w)
      | Inr _ \<Rightarrow>
     (case loadmat w (normpath w mat_file) of
        (r, w') \<Rightarrow>
          (ebind r (\<lambda>mat_all.
             parse_body w' mat_all (normpath w mat_file) nm io_system (dicts w' struct)),
           w')))))"

text \<open>\<open>return io_to_py\<close>: of the two objects built, the call returns the first.\<close>

definition parse_mat ::
  "world \<Rightarrow> string \<Rightarrow> string \<Rightarrow> pyval \<Rightarrow> nat \<Rightarrow> (error + iosystem) \<times> world" where
  "parse_mat w mat_file nm io_system struct =
     (case parse_mat_frame w mat_file nm io_system struct of
        (r, w') \<Rightarrow> (ebind r (\<lambda>fr. Inr (fst fr)), w'))"

subsection \<open>\<open>os.path\<close> on a POSIX system\<close>

text \<open>
  \<open>posixpath.dirname\<close> and \<open>posixpath.normpath\<close>, for the states the examples run in.
\<close>

definition all_slashes :: "string \<Rightarrow> bool" where
  "all_slashes s = list_all (\<lambda>c. c = CHR ''/'') s"

definition posix_dirname :: "string \<Rightarrow> string" where
  "posix_dirname p =
     (let head = rev (dropWhile (\<lambda>c. c \<noteq> CHR ''/'') (rev p))
      in if head \<noteq> [] \<and> \<not> all_slashes head
         then rev (dropWhile (\<lambda>c. c = CHR ''/'') (rev head))
         else head)"

fun split_slash :: "string \<Rightarrow> string list" where
  "split_slash [] = [[]]"
| "split_slash (c # cs) =
     (if c = CHR ''/'' then [] # split_slash cs
      else (case split_slash cs of [] \<Rightarrow> [[c]] | x # xs \<Rightarrow> (c # x) # xs))"

fun norm_comps :: "bool \<Rightarrow> string list \<Rightarrow> string list \<Rightarrow> string list" where
  "norm_comps initial [] new_comps = new_comps"
| "norm_comps initial (cp # comps) new_comps =
     (if cp = [] \<or> cp = ''.'' then norm_comps initial comps new_comps
      else if cp \<noteq> ''..'' \<or> (\<not> initial \<and> new_comps = [])
              \<or> (new_comps \<noteq> [] \<and> last new_comps = ''..'')
      then norm_comps initial comps (new_comps @ [cp])
      else if new_comps \<noteq> [] then norm_comps initial comps (butlast new_comps)
      else norm_comps initial comps new_comps)"

fun join_slash :: "string list \<Rightarrow> string" where
  "join_slash [] = []"
| "join_slash [x] = x"
| "join_slash (x # xs) = x @ ''/'' @ join_slash xs"

definition posix_normpath :: "string \<Rightarrow> string" where
  "posix_normpath path =
     (if path = [] then ''.''
      else
        let initial_slashes =
              (if take 1 path \<noteq> ''/'' then (0::nat)
               else if take 2 path = ''//'' \<and> take 3 path \<noteq> ''///'' then 2 else 1);
            joined = join_slash (norm_comps (0 < initial_slashes) (split_slash path) []);
            res = replicate initial_slashes (CHR ''/'') @ joined
        in if res = [] then ''.'' else res)"

subsection \<open>An example file\<close>

text \<open>
  A container with two monetary labels, two final-demand labels and two stressors.
  The label tables have the columns the default field map slices; the unit cell of
  the first stressor row is a parameter.
\<close>

definition example_labsZ :: pyval where
  "example_labsZ = PArr2
     [[PStr ''1'', PStr ''S1'', PStr ''a'', PStr ''b'', PStr ''c'', PStr ''R1''],
      [PStr ''2'', PStr ''S2'', PStr ''a'', PStr ''b'', PStr ''c'', PStr ''R2'']]"

definition example_labsY :: pyval where
  "example_labsY = PArr2
     [[PStr ''1'', PStr ''C1'', PStr ''a'', PStr ''b'', PStr ''R1''],
      [PStr ''2'', PStr ''C2'', PStr ''a'', PStr ''b'', PStr ''R2'']]"

definition example_labsF :: "pyval \<Rightarrow> pyval" where
  "example_labsF unit1 = PArr2
     [[PStr ''CO2'', PStr ''air'', unit1],
      [PStr ''CH4'', PStr ''water'', PStr ''kg'']]"

definition example_matrix :: pyval where
  "example_matrix = PArr2 [[PNum 1, PNum 2], [PNum 3, PNum 4]]"

definition example_meta :: "pyval \<Rightarrow> pyval" where
  "example_meta labsF = PStruct
     [(''labsZ'', example_labsZ), (''labsY'', example_labsY), (''labsF'', labsF),
      (''unit'', PArr1 [PStr ''MEUR'', PStr ''MEUR'']),
      (''ver'', PStr ''v1''), (''years'', PNum 2007),
      (''_fieldnames'',
       PList [PStr ''labsZ'', PStr ''labsY'', PStr ''labsF'', PStr ''unit'', PStr ''ver'',
              PStr ''years''])]"

definition example_fields :: "pyval \<Rightarrow> (string \<times> pyval) list" where
  "example_fields z =
     [(''Z'', z), (''Y'', example_matrix), (''F'', example_matrix),
      (''F_hh'', example_matrix),
      (''_fieldnames'', PList [PStr ''Z'', PStr ''Y'', PStr ''F'', PStr ''F_hh''])]"

definition example_io :: "pyval \<Rightarrow> pyval" where
  "example_io z = PStruct (example_fields z)"

definition example_container :: "pyval \<Rightarrow> pyval \<Rightarrow> container" where
  "example_container z labsF =
     map_of [(''IO'', example_io z), (''meta'', example_meta labsF)]"

definition example_files :: "container \<Rightarrow> string \<Rightarrow> error + container" where
  "example_files c p = (if p = ''/data/mrio.mat'' then Inr c else Inl OSError)"

text \<open>
  The state of a POSIX system whose only file is the container \<open>c\<close>, with the field
  map \<open>st\<close> at every address and the names \<open>gl\<close> bound.
\<close>

definition example_world :: "string list \<Rightarrow> field_map \<Rightarrow> container \<Rightarrow> world" where
  "example_world gl st c =
     \<lparr>globals = gl, dicts = (\<lambda>_. st), normpath = posix_normpath, dirname = posix_dirname,
      files = example_files c, opened = []\<rparr>"

text \<open>
  The object the call builds from the example file when the unit cell of the first
  stressor row is an empty array (\<open>example_object\<close>), and the same object with
  other stressor labels and other entries in the unit table of the stressors.
\<close>

definition example_mon :: "label list" where
  "example_mon = [[PStr ''R1'', PStr ''S1''], [PStr ''R2'', PStr ''S2'']]"

definition example_fd :: "label list" where
  "example_fd = [[PStr ''R1'', PStr ''C1''], [PStr ''R2'', PStr ''C2'']]"

definition example_stress :: "label list" where
  "example_stress = [[PStr ''CO2'', PStr ''n/a''], [PStr ''CH4'', PStr ''water'']]"

definition example_table :: "label list \<Rightarrow> label list \<Rightarrow> pyval list list \<Rightarrow> dataframe" where
  "example_table idx cols rows = \<lparr>df_index = idx, df_columns = cols, df_data = rows\<rparr>"

definition example_rows :: "pyval list list" where
  "example_rows = [[PNum 1, PNum 2], [PNum 3, PNum 4]]"

definition example_object_of :: "label list \<Rightarrow> pyval list list \<Rightarrow> iosystem" where
  "example_object_of stress stress_units =
     \<lparr>io_name = ''nm'', io_version = PStr ''v1'', io_year = PNum 2007,
      io_iosystem = PStr ''pxp'',
      io_Z = example_table example_mon example_mon example_rows,
      io_Y = example_table example_mon example_fd example_rows,
      io_unit = example_table example_mon unit_columns [[PStr ''MEUR''], [PStr ''MEUR'']],
      io_satellite =
        \<lparr>ext_name = ''Satellite Accounts'',
         ext_F = example_table stress example_mon example_rows,
         ext_F_hh = example_table stress example_fd example_rows,
         ext_unit = example_table stress unit_columns stress_units\<rparr>\<rparr>"

definition example_object :: iosystem where
  "example_object = example_object_of example_stress [[PStr ''air''], [PStr ''kg'']]"

text \<open>
  The example state with the module's names and \<open>logging\<close> bound (as after
  \<open>ntnu.logging = logging\<close>), the default field map and the example file.
\<close>

definition logging_world :: world where
  "logging_world =
     example_world (''logging'' # module_names) MAT_STRUCTURE
       (example_container example_matrix (example_labsF (PArr1 [])))"

subsection \<open>What the claims speak of\<close>

text \<open>A table whose data has the shape of its labels.\<close>

definition table_ok :: "dataframe \<Rightarrow> bool" where
  "table_ok d \<longleftrightarrow>
     length (df_data d) = length (df_index d) \<and>
     list_all (\<lambda>r. length r = length (df_columns d)) (df_data d)"

text \<open>
  A complete, internally consistent domain object: all six tables have the shape of
  their labels, and the tables that share an axis carry the same labels on it.
\<close>

definition consistent :: "iosystem \<Rightarrow> bool" where
  "consistent obj \<longleftrightarrow>
     table_ok (io_Z obj) \<and> table_ok (io_Y obj) \<and> table_ok (io_unit obj) \<and>
     table_ok (ext_F (io_satellite obj)) \<and> table_ok (ext_F_hh (io_satellite obj)) \<and>
     table_ok (ext_unit (io_satellite obj)) \<and>
     df_columns (io_Z obj) = df_index (io_Z obj) \<and>
     df_index (io_Y obj) = df_index (io_Z obj) \<and>
     df_index (io_unit obj) = df_index (io_Z obj) \<and>
     df_columns (io_unit obj) = unit_columns \<and>
     df_columns (ext_F (io_satellite obj)) = df_index (io_Z obj) \<and>
     df_index (ext_F_hh (io_satellite obj)) = df_index (ext_F (io_satellite obj)) \<and>
     df_columns (ext_F_hh (io_satellite obj)) = df_columns (io_Y obj) \<and>
     df_index (ext_unit (io_satellite obj)) = df_index (ext_F (io_satellite obj)) \<and>
     df_columns (ext_unit (io_satellite obj)) = unit_columns"

text \<open>
  The compartment and the unit of one stressor row, from its sliced unit cell and its
  sliced compartment cell. When the unit cell is empty, the sentinel is the
  compartment and the compartment cell is the unit. When the unit cell is not empty,
  the compartment cell is the compartment, and the unit is the unit cell if that is
  a string and the compartment cell otherwise.
\<close>

definition resolved_comp :: "pyval \<Rightarrow> pyval \<Rightarrow> pyval \<Rightarrow> pyval" where
  "resolved_comp sentinel unit_cell comp_cell =
     (if py_len unit_cell = Inr 0 then sentinel else comp_cell)"

definition resolved_unit :: "pyval \<Rightarrow> pyval \<Rightarrow> pyval" where
  "resolved_unit unit_cell comp_cell =
     (if py_len unit_cell = Inr 0 then comp_cell
      else if is_str unit_cell then unit_cell
      else comp_cell)"

text \<open>
  The example state with an array of two numbers as the unit cell of the first
  stressor, and the labels of the stressors in the object the call builds there.
\<close>

definition numeric_unit_world :: "string list \<Rightarrow> world" where
  "numeric_unit_world gl =
     example_world gl MAT_STRUCTURE
       (example_container example_matrix (example_labsF (PArr1 [PNum 1, PNum 2])))"

definition sliced_stress :: "label list" where
  "sliced_stress = [[PStr ''CO2'', PStr ''air''], [PStr ''CH4'', PStr ''water'']]"

text \<open>
  The dimensions of a matrix as stored: of an array of two dimensions with rows of
  one length, of an array of one dimension (one column) and of a sparse matrix. A
  scalar has none.
\<close>

fun dims :: "pyval \<Rightarrow> (nat \<times> nat) option" where
  "dims (PArr2 rows) =
     (case rows of
        [] \<Rightarrow> None
      | r # rs \<Rightarrow> if list_all (\<lambda>x. length x = length r) rs
                 then Some (length rows, length r) else None)"
| "dims (PArr1 xs) = Some (length xs, 1)"
| "dims (PSparse r c m) = Some (r, c)"
| "dims _ = None"

text \<open>The four matrices of the data section and the tables they fill.\<close>

definition matrix_keys :: "string list" where
  "matrix_keys = [''Z'', ''Y'', ''F'', ''F_hh'']"

definition table_of :: "string \<Rightarrow> iosystem \<Rightarrow> dataframe" where
  "table_of K obj =
     (if K = ''Z'' then io_Z obj
      else if K = ''Y'' then io_Y obj
      else if K = ''F'' then ext_F (io_satellite obj)
      else ext_F_hh (io_satellite obj))"

text \<open>The lengths of the two label sequences of a table.\<close>

definition label_dims :: "dataframe \<Rightarrow> nat \<times> nat" where
  "label_dims d = (length (df_index d), length (df_columns d))"

text \<open>
  The example state with the flow matrix of the file stored as the scalar 7 (a matrix
  of one row and one column, as \<open>squeeze_me=True\<close> hands it over).
\<close>

definition scalar_world :: "string list \<Rightarrow> world" where
  "scalar_world gl =
     example_world gl MAT_STRUCTURE
       (example_container (PNum 7) (example_labsF (PArr1 [])))"

text \<open>A matrix of three rows and three columns.\<close>

definition example_wide :: pyval where
  "example_wide = PArr2
     [[PNum 1, PNum 2, PNum 3], [PNum 4, PNum 5, PNum 6], [PNum 7, PNum 8, PNum 9]]"








text \<open>The state whose file at \<open>p\<close> holds \<open>c\<close>.\<close>

definition with_file :: "world \<Rightarrow> string \<Rightarrow> container \<Rightarrow> world" where
  "with_file w p c = w\<lparr>files := (files w)(p := Inr c)\<rparr>"

text \<open>The provenance record the call builds on the example file.\<close>

definition example_record :: mrio_meta where
  "example_record =
     \<lparr>meta_location = ''/data'',
      meta_description = ''MRIO parsed from NTNU mat structure'',
      meta_name = ''nm'', meta_system = PStr ''pxp'', meta_version = PStr ''v1'',
      meta_history = [''MAT MRIO structure parsed from /data/mrio.mat'']\<rparr>"

text \<open>
  A logical matrix of \<open>r\<close> rows and \<open>c\<close> columns, given by its rows, and the two forms in
  which the file delivers it. Stored dense, a matrix with a single row or a single
  column loses that dimension (\<open>squeeze_me=True\<close>): one cell arrives as a scalar, one
  row or one column as an array of one dimension. Stored sparse, it keeps its shape
  and holds its cells that are not zero.
\<close>

definition matrix_rows :: "nat \<Rightarrow> nat \<Rightarrow> pyval list list \<Rightarrow> bool" where
  "matrix_rows r c rows \<longleftrightarrow> length rows = r \<and> list_all (\<lambda>row. length row = c) rows"

fun is_zero :: "pyval \<Rightarrow> bool" where
  "is_zero (PNum x) = (x = 0)"
| "is_zero (PSpecial NegZero) = True"
| "is_zero _ = False"

definition dense_arrival :: "nat \<Rightarrow> nat \<Rightarrow> pyval list list \<Rightarrow> pyval" where
  "dense_arrival r c rows =
     (if r = 0 \<or> c = 0 then PArr1 []
      else if r = 1 \<and> c = 1 then rows ! 0 ! 0
      else if r = 1 then PArr1 (rows ! 0)
      else if c = 1 then PArr1 (map (\<lambda>row. row ! 0) rows)
      else PArr2 rows)"

definition sparse_arrival :: "nat \<Rightarrow> nat \<Rightarrow> pyval list list \<Rightarrow> pyval" where
  "sparse_arrival r c rows =
     PSparse r c
       (\<lambda>(i, j). if i < r \<and> j < c \<and> \<not> is_zero (rows ! i ! j)
                then Some (rows ! i ! j) else None)"

text \<open>
  The example state with the flow matrix \<open>z\<close> in the file, in a namespace that binds
  \<open>logging\<close>.
\<close>

definition arrival_world :: "pyval \<Rightarrow> world" where
  "arrival_world z =
     example_world (''logging'' # module_names) MAT_STRUCTURE
       (example_container z (example_labsF (PArr1 [])))"

text \<open>
  What a call reads from the container, step by step: the data and the meta section,
  the seven label columns, the compartments of the stressor rows as line 126 resolves
  them, the version, the year, the four matrices and the units of the monetary labels.
\<close>

record file_parts =
  fp_io :: pyval
  fp_meta :: pyval
  fp_sec :: "pyval list"
  fp_reg :: "pyval list"
  fp_fd_cat :: "pyval list"
  fp_fd_reg :: "pyval list"
  fp_names :: "pyval list"
  fp_comps :: "pyval list"
  fp_units :: "pyval list"
  fp_resolved :: "pyval list"
  fp_version :: pyval
  fp_year :: pyval
  fp_Z :: pyval
  fp_Y :: pyval
  fp_F :: pyval
  fp_F_hh :: pyval
  fp_mon_unit :: pyval

definition file_holds :: "container \<Rightarrow> field_map \<Rightarrow> file_parts \<Rightarrow> bool" where
  "file_holds c st p \<longleftrightarrow>
     ebind (struct_key st ''data'') (dict_getitem c) = Inr (fp_io p) \<and>
     ebind (struct_key st ''meta'') (dict_getitem c) = Inr (fp_meta p) \<and>
     label_column (fp_meta p) st ''mon_labels'' ''mon_sec_slice'' = Inr (fp_sec p) \<and>
     label_column (fp_meta p) st ''mon_labels'' ''mon_reg_slice'' = Inr (fp_reg p) \<and>
     label_column (fp_meta p) st ''fd_labels'' ''fd_cat_slice'' = Inr (fp_fd_cat p) \<and>
     label_column (fp_meta p) st ''fd_labels'' ''fd_reg_slice'' = Inr (fp_fd_reg p) \<and>
     label_column (fp_meta p) st ''stress_labels'' ''stress_name_slice'' = Inr (fp_names p) \<and>
     label_column (fp_meta p) st ''stress_labels'' ''stress_comp_slice'' = Inr (fp_comps p) \<and>
     label_column (fp_meta p) st ''stress_labels'' ''stress_unit_slice'' = Inr (fp_units p) \<and>
     stress_comp st (zip (fp_units p) (fp_comps p)) = Inr (fp_resolved p) \<and>
     meta_field (fp_meta p) st ''version'' = Inr (fp_version p) \<and>
     meta_field (fp_meta p) st ''year'' = Inr (fp_year p) \<and>
     meta_field (fp_io p) st ''Z'' = Inr (fp_Z p) \<and>
     meta_field (fp_io p) st ''Y'' = Inr (fp_Y p) \<and>
     meta_field (fp_io p) st ''F'' = Inr (fp_F p) \<and>
     meta_field (fp_io p) st ''F_hh'' = Inr (fp_F_hh p) \<and>
     meta_field (fp_meta p) st ''mon_unit'' = Inr (fp_mon_unit p)"

text \<open>
  Two label columns that make an index: of one length, every label hashable. The
  labels of the index are the pairs of the columns, in the order of the file.
\<close>

definition index_ok :: "pyval list \<Rightarrow> pyval list \<Rightarrow> bool" where
  "index_ok a b \<longleftrightarrow> length a = length b \<and> list_all hashable (a @ b)"

definition label_pairs :: "pyval list \<Rightarrow> pyval list \<Rightarrow> label list" where
  "label_pairs a b = map (\<lambda>(x, y). [x, y]) (zip a b)"

text \<open>
  A complete domain object for the parts \<open>p\<close> of a file: it carries the caller's name
  and system tag, the version and the year of the file, and every one of its six
  tables is the table pandas builds from the matching part of the file (the four
  matrices made dense) under the labels of the file: the flow table monetary labels
  by monetary labels, the final-demand table monetary labels by final-demand labels,
  the two stressor tables stressor labels by monetary and by final-demand labels, and
  the two unit tables with the one column \<open>unit\<close>.
\<close>

definition complete_object :: "string \<Rightarrow> pyval \<Rightarrow> file_parts \<Rightarrow> iosystem \<Rightarrow> bool" where
  "complete_object nm tag p obj \<longleftrightarrow>
     index_ok (fp_reg p) (fp_sec p) \<and>
     index_ok (fp_fd_reg p) (fp_fd_cat p) \<and>
     index_ok (fp_names p) (fp_resolved p) \<and>
     io_name obj = nm \<and> io_iosystem obj = tag \<and>
     io_version obj = fp_version p \<and> io_year obj = fp_year p \<and>
     DataFrame (dense_form (fp_Z p))
       (label_pairs (fp_reg p) (fp_sec p)) (label_pairs (fp_reg p) (fp_sec p))
       = Inr (io_Z obj) \<and>
     DataFrame (dense_form (fp_Y p))
       (label_pairs (fp_reg p) (fp_sec p)) (label_pairs (fp_fd_reg p) (fp_fd_cat p))
       = Inr (io_Y obj) \<and>
     DataFrame (fp_mon_unit p) (label_pairs (fp_reg p) (fp_sec p)) unit_columns
       = Inr (io_unit obj) \<and>
     ext_name (io_satellite obj) = ''Satellite Accounts'' \<and>
     DataFrame (dense_form (fp_F p))
       (label_pairs (fp_names p) (fp_resolved p)) (label_pairs (fp_reg p) (fp_sec p))
       = Inr (ext_F (io_satellite obj)) \<and>
     DataFrame (dense_form (fp_F_hh p))
       (label_pairs (fp_names p) (fp_resolved p)) (label_pairs (fp_fd_reg p) (fp_fd_cat p))
       = Inr (ext_F_hh (io_satellite obj)) \<and>
     DataFrame (PList (stress_unit (zip (fp_units p) (fp_comps p))))
       (label_pairs (fp_names p) (fp_resolved p)) unit_columns
       = Inr (ext_unit (io_satellite obj))"

text \<open>The names a call reads from the module's namespace.\<close>

definition names_bound :: "world \<Rightarrow> bool" where
  "names_bound w \<longleftrightarrow>
     list_all (\<lambda>n. n \<in> set (globals w))
       [''os'', ''logging'', ''scipy'', ''pd'', ''IOSystem'', ''Extension'', ''MRIOMetaData'']"

text \<open>The parts of the example file.\<close>

definition example_parts :: file_parts where
  "example_parts =
     \<lparr>fp_io = example_io example_matrix, fp_meta = example_meta (example_labsF (PArr1 [])),
      fp_sec = [PStr ''S1'', PStr ''S2''], fp_reg = [PStr ''R1'', PStr ''R2''],
      fp_fd_cat = [PStr ''C1'', PStr ''C2''], fp_fd_reg = [PStr ''R1'', PStr ''R2''],
      fp_names = [PStr ''CO2'', PStr ''CH4''], fp_comps = [PStr ''air'', PStr ''water''],
      fp_units = [PArr1 [], PStr ''kg''], fp_resolved = [PStr ''n/a'', PStr ''water''],
      fp_version = PStr ''v1'', fp_year = PNum 2007,
      fp_Z = example_matrix, fp_Y = example_matrix, fp_F = example_matrix,
      fp_F_hh = example_matrix, fp_mon_unit = PArr1 [PStr ''MEUR'', PStr ''MEUR'']\<rparr>"

text \<open>A domain object none of whose label sequences is empty.\<close>

definition populated :: "iosystem \<Rightarrow> bool" where
  "populated obj \<longleftrightarrow>
     df_index (io_Z obj) \<noteq> [] \<and> df_columns (io_Y obj) \<noteq> [] \<and>
     df_index (ext_F (io_satellite obj)) \<noteq> []"

section \<open>Properties\<close>

lemma ebind_simps [simp]:
  "ebind (Inl e) f = Inl e"
  "ebind (Inr x) f = f x"
  by (simp_all add: ebind_def)

lemma ebind_eq_Inr:
  "ebind m f = Inr y \<longleftrightarrow> (\<exists>x. m = Inr x \<and> f x = Inr y)"
  by (cases m) simp_all

lemma lookup_global_Inr: "lookup_global w n = Inr u \<longleftrightarrow> n \<in> set (globals w)"
  by (simp add: lookup_global_def)

text \<open>A call that returns went through every step of lines 104 to 219.\<close>

lemma parse_bodyE:
  assumes "parse_body w c p nm s st = Inr fr"
  obtains mat_io mat_meta ll mon fd srow ver yr dZ dY dF dFhh dU dFU where
    "ebind (struct_key st ''data'') (dict_getitem c) = Inr mat_io"
    "ebind (struct_key st ''meta'') (dict_getitem c) = Inr mat_meta"
    "read_labels mat_meta st = Inr ll"
    "build_indices w ll = Inr (mon, fd, srow)"
    "meta_field mat_meta st ''version'' = Inr ver"
    "meta_field mat_meta st ''year'' = Inr yr"
    "read_table mat_io st ''Z'' mon mon = Inr dZ"
    "read_table mat_io st ''Y'' mon fd = Inr dY"
    "read_table mat_io st ''F'' srow mon = Inr dF"
    "read_table mat_io st ''F_hh'' srow fd = Inr dFhh"
    "ebind (meta_field mat_meta st ''mon_unit'') (\<lambda>u. DataFrame u mon unit_columns) = Inr dU"
    "DataFrame_of_list (ll_stress_unit ll) srow unit_columns = Inr dFU"
    "''logging'' \<in> set (globals w)" "''IOSystem'' \<in> set (globals w)"
    "''Extension'' \<in> set (globals w)" "''MRIOMetaData'' \<in> set (globals w)"
    "fr = (\<lparr>io_name = nm, io_version = ver, io_year = yr,
           io_iosystem = s, io_Z = dZ, io_Y = dY, io_unit = dU,
           io_satellite =
             \<lparr>ext_name = ''Satellite Accounts'', ext_F = dF, ext_F_hh = dFhh,
              ext_unit = dFU\<rparr>\<rparr>,
          add_fileio
            (MRIOMetaData (dirname w p) ''MRIO parsed from NTNU mat structure''
               nm s ver)
            (''MAT MRIO structure parsed from '' @ p))"
  using assms that unfolding parse_body_def
  by (auto simp: ebind_eq_Inr lookup_global_Inr split: prod.splits)

lemma parse_body_opened [simp]: "parse_body (w\<lparr>opened := x\<rparr>) = parse_body w"
  by (intro ext) (simp add: parse_body_def build_indices_def lookup_global_def)

lemma parse_mat_frameE:
  assumes "fst (parse_mat_frame w f nm s a) = Inr fr"
  obtains c where "files w (normpath w f) = Inr c"
    "parse_body w c (normpath w f) nm s (dicts w a) = Inr fr"
    "''os'' \<in> set (globals w)" "''logging'' \<in> set (globals w)" "''scipy'' \<in> set (globals w)"
  using assms unfolding parse_mat_frame_def loadmat_def lookup_global_def
  by (auto simp: ebind_eq_Inr split: if_splits)

lemma parse_mat_fst:
  "fst (parse_mat w f nm s a) =
     ebind (fst (parse_mat_frame w f nm s a)) (\<lambda>fr. Inr (fst fr))"
  by (simp add: parse_mat_def split: prod.splits)

lemma parse_matE:
  assumes "fst (parse_mat w f nm s a) = Inr obj"
  obtains c meta where "files w (normpath w f) = Inr c"
    "parse_body w c (normpath w f) nm s (dicts w a) = Inr (obj, meta)"
    "''os'' \<in> set (globals w)" "''logging'' \<in> set (globals w)" "''scipy'' \<in> set (globals w)"
proof -
  from assms obtain fr where fr: "fst (parse_mat_frame w f nm s a) = Inr fr" and "fst fr = obj"
    by (auto simp: parse_mat_fst ebind_eq_Inr)
  then have "fst (parse_mat_frame w f nm s a) = Inr (obj, snd fr)"
    by (cases fr) simp
  then show ?thesis
    by (rule parse_mat_frameE) (rule that)
qed

lemma DataFrame_Inr:
  "DataFrame v idx cols = Inr d \<Longrightarrow> df_index d = idx \<and> df_columns d = cols \<and> table_ok d"
  by (cases v) (auto simp: table_ok_def list_all_iff split: if_splits)

lemma read_table_Inr:
  "read_table io st k idx cols = Inr d \<Longrightarrow> df_index d = idx \<and> df_columns d = cols \<and> table_ok d"
  by (auto simp: read_table_def ebind_eq_Inr dest: DataFrame_Inr)

lemma DataFrame_of_list_Inr:
  "DataFrame_of_list xs idx cols = Inr d \<Longrightarrow>
     df_index d = idx \<and> df_columns d = cols \<and> table_ok d"
  unfolding DataFrame_of_list_def by (rule DataFrame_Inr)

subsection \<open>The run on the example file\<close>

lemmas example_defs =
  logging_world_def example_world_def example_files_def example_container_def
  example_io_def example_fields_def example_meta_def example_labsZ_def example_labsY_def example_labsF_def
  example_matrix_def MAT_STRUCTURE_def MAT_STRUCTURE_addr_def module_names_def
  posix_normpath_def posix_dirname_def all_slashes_def

lemmas run_defs =
  parse_mat_def parse_mat_frame_def lookup_global_def loadmat_def parse_body_def
  struct_key_def dict_getitem_def read_labels_def label_column_def meta_field_def
  stress_unit_def build_indices_def MultiIndex_from_arrays_def read_table_def
  unit_columns_def DataFrame_of_list_def add_fileio_def MRIOMetaData_def todense_def

lemmas object_defs =
  example_object_def example_object_of_def example_table_def example_mon_def example_fd_def example_stress_def
  example_rows_def

lemma example_run:
  "fst (parse_mat logging_world ''/data/./mrio.mat'' ''nm'' (PStr ''pxp'') MAT_STRUCTURE_addr)
     = Inr example_object"
  by (simp add: example_defs run_defs object_defs)

subsection \<open>Label columns and indices\<close>

lemma stress_comp_Inr:
  "stress_comp st rows = Inr cs \<Longrightarrow> st ''empty_comp'' = Some v \<Longrightarrow>
     cs = map (\<lambda>(u, c). resolved_comp (cfg_value v) u c) rows"
proof (induction rows arbitrary: cs)
  case Nil
  then show ?case by simp
next
  case (Cons row rows)
  then show ?case
    by (cases row) (auto simp: ebind_eq_Inr resolved_comp_def dict_getitem_def split: if_splits)
qed

lemma ndarray_getitem_Inr:
  "ndarray_getitem tbl sl = Inr v \<Longrightarrow>
     \<exists>rows xs. tbl = PArr2 rows \<and> rows \<noteq> [] \<and> v = PArr1 xs \<and> length xs = length rows"
  by (cases tbl; cases sl) (auto simp: Let_def split: if_splits list.splits)

lemma label_column_Inr:
  "label_column m st lk sk = Inr xs \<Longrightarrow>
     \<exists>rows. meta_field m st lk = Inr (PArr2 rows) \<and> xs \<noteq> [] \<and> length xs = length rows"
  by (auto simp: label_column_def ebind_eq_Inr dest!: ndarray_getitem_Inr)

lemma read_labelsE:
  assumes "read_labels m st = Inr ll"
  obtains sec reg fd_cat fd_reg stress_names comp0 unit0 cs where
    "label_column m st ''mon_labels'' ''mon_sec_slice'' = Inr sec"
    "label_column m st ''mon_labels'' ''mon_reg_slice'' = Inr reg"
    "label_column m st ''fd_labels'' ''fd_cat_slice'' = Inr fd_cat"
    "label_column m st ''fd_labels'' ''fd_reg_slice'' = Inr fd_reg"
    "label_column m st ''stress_labels'' ''stress_name_slice'' = Inr stress_names"
    "label_column m st ''stress_labels'' ''stress_comp_slice'' = Inr comp0"
    "label_column m st ''stress_labels'' ''stress_unit_slice'' = Inr unit0"
    "stress_comp st (zip unit0 comp0) = Inr cs"
    "ll = \<lparr>ll_sec = sec, ll_reg = reg, ll_fd_cat = fd_cat, ll_fd_reg = fd_reg,
          ll_stress_names = stress_names, ll_stress_comp = cs,
          ll_stress_unit = stress_unit (zip unit0 comp0)\<rparr>"
  using assms that unfolding read_labels_def
  by (auto simp: ebind_eq_Inr)

lemma MultiIndex_Inr:
  "MultiIndex_from_arrays a b = Inr idx \<Longrightarrow>
     length a = length b \<and> idx = map (\<lambda>(x, y). [x, y]) (zip a b)"
  by (auto simp: MultiIndex_from_arrays_def split: if_splits)

lemma build_indicesE:
  assumes "build_indices w ll = Inr (mon, fd, srow)"
  obtains "length (ll_reg ll) = length (ll_sec ll)"
    "mon = map (\<lambda>(x, y). [x, y]) (zip (ll_reg ll) (ll_sec ll))"
    "length (ll_fd_reg ll) = length (ll_fd_cat ll)"
    "fd = map (\<lambda>(x, y). [x, y]) (zip (ll_fd_reg ll) (ll_fd_cat ll))"
    "length (ll_stress_names ll) = length (ll_stress_comp ll)"
    "srow = map (\<lambda>(x, y). [x, y]) (zip (ll_stress_names ll) (ll_stress_comp ll))"
    "''pd'' \<in> set (globals w)"
  using assms that unfolding build_indices_def
  by (auto simp: ebind_eq_Inr lookup_global_Inr dest!: MultiIndex_Inr)

lemma DataFrame_of_list_data:
  "DataFrame_of_list xs idx cols = Inr d \<Longrightarrow> df_data d = map (\<lambda>x. [x]) xs"
  by (auto simp: DataFrame_of_list_def split: if_splits)

subsection \<open>Shapes\<close>

lemma label_column_nonempty: "label_column m st lk sk = Inr xs \<Longrightarrow> xs \<noteq> []"
  by (auto dest: label_column_Inr)

lemma dense_form_not_sparse: "dense_form v \<noteq> PSparse r c m"
  by (cases v) (simp_all add: todense_def)

lemma DataFrame_error: "DataFrame (dense_form v) idx cols = Inl e \<Longrightarrow> e = ValueError"
  using dense_form_not_sparse [of v]
  by (cases "dense_form v") (auto split: if_splits)

lemma DataFrame_mismatch:
  assumes "dims m = Some d" "idx \<noteq> []" "d \<noteq> (length idx, length cols)"
  shows "DataFrame (dense_form m) idx cols = Inl ValueError"
proof (cases m)
  case (PArr2 rows)
  with assms show ?thesis
    by (auto simp: list_all_iff split: list.splits if_splits)
next
  case (PSparse r c es)
  with assms show ?thesis
    by (cases r) (auto simp: todense_def list_all_iff)
qed (use assms in auto)


lemma ebind_fail_cases:
  "(\<And>e. m = Inl e \<Longrightarrow> e = E) \<Longrightarrow> (\<And>x. f x = Inl E) \<Longrightarrow> ebind m f = Inl E"
  by (cases m) auto

lemma zip_labels_nonempty:
  "a \<noteq> [] \<Longrightarrow> length a = length b \<Longrightarrow> map (\<lambda>(x, y). [x, y]) (zip a b) \<noteq> []"
  by (cases a; cases b) auto

lemma read_labels_nonempty:
  assumes "read_labels m st = Inr ll"
  shows "ll_reg ll \<noteq> [] \<and> ll_fd_reg ll \<noteq> [] \<and> ll_stress_names ll \<noteq> []"
  using assms by (rule read_labelsE) (auto dest: label_column_Inr)

subsection \<open>Missing keys\<close>












lemma parse_body_files [simp]: "parse_body (w\<lparr>files := x\<rparr>) = parse_body w"
  by (intro ext) (simp add: parse_body_def build_indices_def lookup_global_def)

lemma parse_body_dicts [simp]: "parse_body (w\<lparr>dicts := x\<rparr>) = parse_body w"
  by (intro ext) (simp add: parse_body_def build_indices_def lookup_global_def)


subsection \<open>What the returned object does not carry\<close>

lemma ebind_assoc: "ebind (ebind m f) g = ebind m (\<lambda>x. ebind (f x) g)"
  by (cases m) simp_all

lemma returned_object_ignores_directory:
  "fst (parse_mat (w\<lparr>dirname := dn\<rparr>) mat_file nm io_system struct)
     = fst (parse_mat w mat_file nm io_system struct)"
proof -
  have "ebind (parse_body (w\<lparr>dirname := dn\<rparr>) c p nm io_system st) (\<lambda>fr. Inr (fst fr))
      = ebind (parse_body w c p nm io_system st) (\<lambda>fr. Inr (fst fr))" for c p st
    by (simp add: parse_body_def ebind_assoc build_indices_def lookup_global_def split_def)
  then show ?thesis
    by (simp add: parse_mat_def parse_mat_frame_def loadmat_def lookup_global_def
        ebind_assoc)
qed

text \<open>
  The flow table of a returned object: the label pairs (region, sector) in the order
  of the file on both axes, and the rows of the matrix of the file, made dense.
\<close>

lemma flow_table_from_file:
  assumes "fst (parse_mat w mat_file nm io_system struct) = Inr obj"
  shows "\<exists>c mat_io mat_meta regs secs z.
     files w (normpath w mat_file) = Inr c \<and>
     ebind (struct_key (dicts w struct) ''data'') (dict_getitem c) = Inr mat_io \<and>
     ebind (struct_key (dicts w struct) ''meta'') (dict_getitem c) = Inr mat_meta \<and>
     label_column mat_meta (dicts w struct) ''mon_labels'' ''mon_reg_slice'' = Inr regs \<and>
     label_column mat_meta (dicts w struct) ''mon_labels'' ''mon_sec_slice'' = Inr secs \<and>
     meta_field mat_io (dicts w struct) ''Z'' = Inr z \<and>
     df_index (io_Z obj) = map (\<lambda>(r, s). [r, s]) (zip regs secs) \<and>
     df_columns (io_Z obj) = df_index (io_Z obj) \<and>
     (\<forall>rows. dense_form z = PArr2 rows \<longrightarrow> df_data (io_Z obj) = rows)"
  using assms
proof (rule parse_matE)
  fix c meta
  let ?st = "dicts w struct"
  assume c: "files w (normpath w mat_file) = Inr c"
  assume "parse_body w c (normpath w mat_file) nm io_system ?st = Inr (obj, meta)"
  then show ?thesis
  proof (rule parse_bodyE)
    fix mat_io mat_meta ll mon fd srow ver yr dZ dY dF dFhh dU dFU
    assume data: "ebind (struct_key ?st ''data'') (dict_getitem c) = Inr mat_io"
      and meta: "ebind (struct_key ?st ''meta'') (dict_getitem c) = Inr mat_meta"
      and ll: "read_labels mat_meta ?st = Inr ll"
      and idx: "build_indices w ll = Inr (mon, fd, srow)"
      and tZ: "read_table mat_io ?st ''Z'' mon mon = Inr dZ"
      and fr: "(obj, meta) =
          (\<lparr>io_name = nm, io_version = ver, io_year = yr,
            io_iosystem = io_system, io_Z = dZ, io_Y = dY, io_unit = dU,
            io_satellite =
              \<lparr>ext_name = ''Satellite Accounts'', ext_F = dF, ext_F_hh = dFhh,
               ext_unit = dFU\<rparr>\<rparr>,
           add_fileio
             (MRIOMetaData (dirname w (normpath w mat_file))
                ''MRIO parsed from NTNU mat structure'' nm io_system ver)
             (''MAT MRIO structure parsed from '' @ normpath w mat_file))"
    from ll obtain secs regs where
      secs: "label_column mat_meta ?st ''mon_labels'' ''mon_sec_slice'' = Inr secs"
      and regs: "label_column mat_meta ?st ''mon_labels'' ''mon_reg_slice'' = Inr regs"
      and ll_eq: "ll_sec ll = secs" "ll_reg ll = regs"
      by (rule read_labelsE) simp
    from idx have mon: "mon = map (\<lambda>(r, s). [r, s]) (zip regs secs)"
      by (rule build_indicesE) (simp add: ll_eq)
    from tZ obtain z where z: "meta_field mat_io ?st ''Z'' = Inr z"
      and dZ: "DataFrame (dense_form z) mon mon = Inr dZ"
      by (auto simp: read_table_def ebind_eq_Inr)
    have "df_data dZ = rows" if "dense_form z = PArr2 rows" for rows
      using dZ that by (auto split: if_splits)
    with c data meta regs secs z mon DataFrame_Inr [OF dZ] fr show ?thesis
      by auto
  qed
qed

lemma stress_unit_resolved:
  assumes "PStr [] \<notin> set units"
  shows "stress_unit (zip units comps) = map (\<lambda>(u, c). resolved_unit u c) (zip units comps)"
proof -
  have "(if is_str u then u else c) = resolved_unit u c" if "u \<in> set units" for u c
  proof -
    from that assms have "u \<noteq> PStr []" by auto
    then show ?thesis by (cases u) (auto simp: resolved_unit_def)
  qed
  then show ?thesis
    unfolding stress_unit_def
    by (intro map_cong refl) (auto dest: set_zip_leftD)
qed

subsection \<open>Sparse and dense matrices\<close>

lemma upt_small: "[0..<1] = [0]" "[0..<2] = [0, 1]"
  by code_simp+

lemma zero_plus_id: "v \<noteq> PSpecial NegZero \<Longrightarrow> zero_plus v = v"
  by (cases v rule: zero_plus.cases) simp_all

lemma is_zero_PNum: "is_zero v \<Longrightarrow> v \<noteq> PSpecial NegZero \<Longrightarrow> v = PNum 0"
  by (cases v rule: is_zero.cases) simp_all

lemma dense_form_sparse_arrival:
  assumes "matrix_rows r c rows" "PSpecial NegZero \<notin> set (concat rows)"
  shows "dense_form (sparse_arrival r c rows) = PArr2 rows"
proof -
  from assms(1) have len: "length rows = r" and row: "\<And>i. i < r \<Longrightarrow> length (rows ! i) = c"
    by (auto simp: matrix_rows_def list_all_length)
  have cell: "rows ! i ! j \<noteq> PSpecial NegZero" if "i < r" "j < c" for i j
  proof -
    from that len row have "rows ! i \<in> set rows" "rows ! i ! j \<in> set (rows ! i)"
      by simp_all
    then have "rows ! i ! j \<in> set (concat rows)"
      by auto
    with assms(2) show ?thesis by auto
  qed
  have inner: "map (\<lambda>j. case (if i < r \<and> j < c \<and> \<not> is_zero (rows ! i ! j)
                     then Some (rows ! i ! j) else None) of
                 None \<Rightarrow> PNum 0 | Some v \<Rightarrow> zero_plus v) [0..<c] = rows ! i"
    if "i < r" for i
  proof (rule nth_equalityI)
    show "length (map (\<lambda>j. case (if i < r \<and> j < c \<and> \<not> is_zero (rows ! i ! j)
                     then Some (rows ! i ! j) else None) of
                 None \<Rightarrow> PNum 0 | Some v \<Rightarrow> zero_plus v) [0..<c]) = length (rows ! i)"
      using that by (simp add: row)
  next
    fix j
    assume "j < length (map (\<lambda>j. case (if i < r \<and> j < c \<and> \<not> is_zero (rows ! i ! j)
                     then Some (rows ! i ! j) else None) of
                 None \<Rightarrow> PNum 0 | Some v \<Rightarrow> zero_plus v) [0..<c])"
    then have j: "j < c" by simp
    from cell [OF that j]
    have "zero_plus (rows ! i ! j) = rows ! i ! j"
      and "is_zero (rows ! i ! j) \<longrightarrow> PNum 0 = rows ! i ! j"
      by (auto simp: zero_plus_id dest: is_zero_PNum)
    with that j show "map (\<lambda>j. case (if i < r \<and> j < c \<and> \<not> is_zero (rows ! i ! j)
                     then Some (rows ! i ! j) else None) of
                 None \<Rightarrow> PNum 0 | Some v \<Rightarrow> zero_plus v) [0..<c] ! j = rows ! i ! j"
      by simp
  qed
  have "map (\<lambda>i. map (\<lambda>j. case (if i < r \<and> j < c \<and> \<not> is_zero (rows ! i ! j)
                     then Some (rows ! i ! j) else None) of
                 None \<Rightarrow> PNum 0 | Some v \<Rightarrow> zero_plus v) [0..<c]) [0..<r] = rows"
  proof (rule nth_equalityI)
    show "length (map (\<lambda>i. map (\<lambda>j. case (if i < r \<and> j < c \<and> \<not> is_zero (rows ! i ! j)
                     then Some (rows ! i ! j) else None) of
                 None \<Rightarrow> PNum 0 | Some v \<Rightarrow> zero_plus v) [0..<c]) [0..<r]) = length rows"
      by (simp add: len)
  next
    fix i
    assume "i < length (map (\<lambda>i. map (\<lambda>j. case (if i < r \<and> j < c \<and> \<not> is_zero (rows ! i ! j)
                     then Some (rows ! i ! j) else None) of
                 None \<Rightarrow> PNum 0 | Some v \<Rightarrow> zero_plus v) [0..<c]) [0..<r])"
    then have i: "i < r" by simp
    from inner [OF i] i
    show "map (\<lambda>i. map (\<lambda>j. case (if i < r \<and> j < c \<and> \<not> is_zero (rows ! i ! j)
                     then Some (rows ! i ! j) else None) of
                 None \<Rightarrow> PNum 0 | Some v \<Rightarrow> zero_plus v) [0..<c]) [0..<r] ! i = rows ! i"
      by (simp cong: if_cong)
  qed
  then show ?thesis
    by (simp add: sparse_arrival_def todense_def)
qed

lemma DataFrame_dense_arrival:
  assumes "matrix_rows r c rows" "2 \<le> r" "1 \<le> c"
  shows "DataFrame (dense_arrival r c rows) idx cols = DataFrame (PArr2 rows) idx cols"
proof (cases "c = 1")
  case True
  from assms(1) True have len: "length rows = r" and row: "\<forall>x\<in>set rows. length x = 1"
    by (auto simp: matrix_rows_def list_all_iff)
  have "map (\<lambda>x. [x]) (map (\<lambda>row. row ! 0) rows) = rows"
  proof (rule nth_equalityI)
    show "length (map (\<lambda>x. [x]) (map (\<lambda>row. row ! 0) rows)) = length rows" by simp
  next
    fix i assume "i < length (map (\<lambda>x. [x]) (map (\<lambda>row. row ! 0) rows))"
    then have i: "i < length rows" by simp
    with row have "length (rows ! i) = 1" by simp
    then obtain x where "rows ! i = [x]"
      by (cases "rows ! i") simp_all
    with i show "map (\<lambda>x. [x]) (map (\<lambda>row. row ! 0) rows) ! i = rows ! i"
      by simp
  qed
  moreover have "list_all (\<lambda>r. length r = length cols) rows \<longleftrightarrow> length cols = 1"
    using row len assms(2) by (cases rows) (auto simp: list_all_iff)
  ultimately show ?thesis
    using True assms(2) len by (auto simp: dense_arrival_def)
next
  case False
  with assms show ?thesis by (simp add: dense_arrival_def)
qed

lemma dense_form_dense_arrival:
  assumes "matrix_rows r c rows" "2 \<le> r" "1 \<le> c"
  shows "dense_form (dense_arrival r c rows) = dense_arrival r c rows"
  using assms by (simp add: dense_arrival_def)

lemma read_table_field_cong:
  assumes "\<And>idx cols. DataFrame (dense_form v) idx cols = DataFrame (dense_form v') idx cols"
  shows "read_table (PStruct ((kf, v) # fs)) st K idx cols
       = read_table (PStruct ((kf, v') # fs)) st K idx cols"
  using assms
  by (cases "struct_key st K")
     (simp_all add: read_table_def meta_field_def dict_getitem_def)

lemma parse_body_field_cong:
  assumes "\<And>idx cols. DataFrame (dense_form v) idx cols = DataFrame (dense_form v') idx cols"
    and "struct_key st ''meta'' \<noteq> Inr kd"
  shows "parse_body w (c(kd \<mapsto> PStruct ((kf, v) # fs))) p nm s st
       = parse_body w (c(kd \<mapsto> PStruct ((kf, v') # fs))) p nm s st"
proof -
  have meta: "ebind (struct_key st ''meta'') (dict_getitem (c(kd \<mapsto> x)))
     = ebind (struct_key st ''meta'') (dict_getitem c)" for x
    using assms(2) by (cases "struct_key st ''meta''") (auto simp: dict_getitem_def)
  note tbl = read_table_field_cong [of v v', OF assms(1)]
  show ?thesis
  proof (cases "struct_key st ''data''")
    case (Inl e)
    then show ?thesis by (simp add: parse_body_def)
  next
    case (Inr k)
    show ?thesis
    proof (cases "k = kd")
      case True
      with Inr show ?thesis
        unfolding parse_body_def meta by (simp add: dict_getitem_def tbl)
    next
      case False
      with Inr show ?thesis
        unfolding parse_body_def meta by (simp add: dict_getitem_def)
    qed
  qed
qed

subsection \<open>A returned object is complete\<close>

lemma MultiIndex_iff:
  "MultiIndex_from_arrays a b = Inr idx \<longleftrightarrow> index_ok a b \<and> idx = label_pairs a b"
  by (auto simp: MultiIndex_from_arrays_def index_ok_def label_pairs_def)

lemma read_table_iff:
  "read_table io st k idx cols = Inr d \<longleftrightarrow>
     (\<exists>m. meta_field io st k = Inr m \<and> DataFrame (dense_form m) idx cols = Inr d)"
  by (simp add: read_table_def ebind_eq_Inr)

lemma parse_body_complete:
  assumes "parse_body w c path nm tag st = Inr (obj, meta)"
  shows "\<exists>p. file_holds c st p \<and> complete_object nm tag p obj"
  using assms
proof (rule parse_bodyE)
  fix mat_io mat_meta ll mon fd srow ver yr dZ dY dF dFhh dU dFU
  assume io: "ebind (struct_key st ''data'') (dict_getitem c) = Inr mat_io"
    and mt: "ebind (struct_key st ''meta'') (dict_getitem c) = Inr mat_meta"
    and ll: "read_labels mat_meta st = Inr ll"
    and idx: "build_indices w ll = Inr (mon, fd, srow)"
    and ver: "meta_field mat_meta st ''version'' = Inr ver"
    and yr: "meta_field mat_meta st ''year'' = Inr yr"
    and tables: "read_table mat_io st ''Z'' mon mon = Inr dZ"
      "read_table mat_io st ''Y'' mon fd = Inr dY"
      "read_table mat_io st ''F'' srow mon = Inr dF"
      "read_table mat_io st ''F_hh'' srow fd = Inr dFhh"
    and dU: "ebind (meta_field mat_meta st ''mon_unit'') (\<lambda>u. DataFrame u mon unit_columns) = Inr dU"
    and dFU: "DataFrame_of_list (ll_stress_unit ll) srow unit_columns = Inr dFU"
    and fr: "(obj, meta) =
          (\<lparr>io_name = nm, io_version = ver, io_year = yr,
            io_iosystem = tag, io_Z = dZ, io_Y = dY, io_unit = dU,
            io_satellite =
              \<lparr>ext_name = ''Satellite Accounts'', ext_F = dF, ext_F_hh = dFhh,
               ext_unit = dFU\<rparr>\<rparr>,
           add_fileio
             (MRIOMetaData (dirname w path)
                ''MRIO parsed from NTNU mat structure'' nm tag ver)
             (''MAT MRIO structure parsed from '' @ path))"
  from tables obtain zZ zY zF zFhh where
    fields: "meta_field mat_io st ''Z'' = Inr zZ" "meta_field mat_io st ''Y'' = Inr zY"
      "meta_field mat_io st ''F'' = Inr zF" "meta_field mat_io st ''F_hh'' = Inr zFhh"
    and frames: "DataFrame (dense_form zZ) mon mon = Inr dZ"
      "DataFrame (dense_form zY) mon fd = Inr dY"
      "DataFrame (dense_form zF) srow mon = Inr dF"
      "DataFrame (dense_form zFhh) srow fd = Inr dFhh"
    unfolding read_table_iff by blast
  from dU obtain un where un: "meta_field mat_meta st ''mon_unit'' = Inr un"
    and dU': "DataFrame un mon unit_columns = Inr dU"
    by (auto simp: ebind_eq_Inr)
  from ll show ?thesis
  proof (rule read_labelsE)
    fix sec reg fd_cat fd_reg names comps units cs
    assume cols: "label_column mat_meta st ''mon_labels'' ''mon_sec_slice'' = Inr sec"
      "label_column mat_meta st ''mon_labels'' ''mon_reg_slice'' = Inr reg"
      "label_column mat_meta st ''fd_labels'' ''fd_cat_slice'' = Inr fd_cat"
      "label_column mat_meta st ''fd_labels'' ''fd_reg_slice'' = Inr fd_reg"
      "label_column mat_meta st ''stress_labels'' ''stress_name_slice'' = Inr names"
      "label_column mat_meta st ''stress_labels'' ''stress_comp_slice'' = Inr comps"
      "label_column mat_meta st ''stress_labels'' ''stress_unit_slice'' = Inr units"
      and cs: "stress_comp st (zip units comps) = Inr cs"
      and ll_eq: "ll = \<lparr>ll_sec = sec, ll_reg = reg, ll_fd_cat = fd_cat, ll_fd_reg = fd_reg,
          ll_stress_names = names, ll_stress_comp = cs,
          ll_stress_unit = stress_unit (zip units comps)\<rparr>"
    from idx have ok: "index_ok reg sec" "index_ok fd_reg fd_cat" "index_ok names cs"
      and lab: "mon = label_pairs reg sec" "fd = label_pairs fd_reg fd_cat"
        "srow = label_pairs names cs"
      by (auto simp: build_indices_def ebind_eq_Inr MultiIndex_iff ll_eq)
    let ?p = "\<lparr>fp_io = mat_io, fp_meta = mat_meta, fp_sec = sec, fp_reg = reg,
      fp_fd_cat = fd_cat, fp_fd_reg = fd_reg, fp_names = names, fp_comps = comps,
      fp_units = units, fp_resolved = cs, fp_version = ver, fp_year = yr,
      fp_Z = zZ, fp_Y = zY, fp_F = zF, fp_F_hh = zFhh, fp_mon_unit = un\<rparr>"
    have "file_holds c st ?p"
      by (simp add: file_holds_def io mt cols cs ver yr fields un)
    moreover have "complete_object nm tag ?p obj"
      using fr ok frames dU' dFU
      by (simp add: complete_object_def lab [symmetric] DataFrame_of_list_def ll_eq)
    ultimately show ?thesis by blast
  qed
qed

lemma complete_parse_body:
  assumes "file_holds c st p" "complete_object nm tag p obj"
    and "list_all (\<lambda>n. n \<in> set (globals w))
       [''logging'', ''pd'', ''IOSystem'', ''Extension'', ''MRIOMetaData'']"
  shows "\<exists>meta. parse_body w c path nm tag st = Inr (obj, meta)"
proof -
  from assms(1) have ll: "read_labels (fp_meta p) st =
     Inr \<lparr>ll_sec = fp_sec p, ll_reg = fp_reg p, ll_fd_cat = fp_fd_cat p, ll_fd_reg = fp_fd_reg p,
          ll_stress_names = fp_names p, ll_stress_comp = fp_resolved p,
          ll_stress_unit = stress_unit (zip (fp_units p) (fp_comps p))\<rparr>"
    by (simp add: file_holds_def read_labels_def)
  from assms(2,3) have idx: "build_indices w
        \<lparr>ll_sec = fp_sec p, ll_reg = fp_reg p, ll_fd_cat = fp_fd_cat p, ll_fd_reg = fp_fd_reg p,
          ll_stress_names = fp_names p, ll_stress_comp = fp_resolved p,
          ll_stress_unit = stress_unit (zip (fp_units p) (fp_comps p))\<rparr>
      = Inr (label_pairs (fp_reg p) (fp_sec p), label_pairs (fp_fd_reg p) (fp_fd_cat p),
             label_pairs (fp_names p) (fp_resolved p))"
    by (simp add: build_indices_def lookup_global_def complete_object_def index_ok_def
        label_pairs_def MultiIndex_from_arrays_def)
  from assms(1,2) have tables:
    "read_table (fp_io p) st ''Z'' (label_pairs (fp_reg p) (fp_sec p))
        (label_pairs (fp_reg p) (fp_sec p)) = Inr (io_Z obj)"
    "read_table (fp_io p) st ''Y'' (label_pairs (fp_reg p) (fp_sec p))
        (label_pairs (fp_fd_reg p) (fp_fd_cat p)) = Inr (io_Y obj)"
    "read_table (fp_io p) st ''F'' (label_pairs (fp_names p) (fp_resolved p))
        (label_pairs (fp_reg p) (fp_sec p)) = Inr (ext_F (io_satellite obj))"
    "read_table (fp_io p) st ''F_hh'' (label_pairs (fp_names p) (fp_resolved p))
        (label_pairs (fp_fd_reg p) (fp_fd_cat p)) = Inr (ext_F_hh (io_satellite obj))"
    by (simp_all add: read_table_def file_holds_def complete_object_def)
  from assms(1,2) have units:
    "ebind (meta_field (fp_meta p) st ''mon_unit'')
       (\<lambda>u. DataFrame u (label_pairs (fp_reg p) (fp_sec p)) unit_columns) = Inr (io_unit obj)"
    "DataFrame_of_list (stress_unit (zip (fp_units p) (fp_comps p)))
       (label_pairs (fp_names p) (fp_resolved p)) unit_columns
       = Inr (ext_unit (io_satellite obj))"
    by (simp_all add: file_holds_def complete_object_def DataFrame_of_list_def)
  from assms(1) have secs: "ebind (struct_key st ''data'') (dict_getitem c) = Inr (fp_io p)"
    "ebind (struct_key st ''meta'') (dict_getitem c) = Inr (fp_meta p)"
    "meta_field (fp_meta p) st ''version'' = Inr (fp_version p)"
    "meta_field (fp_meta p) st ''year'' = Inr (fp_year p)"
    by (simp_all add: file_holds_def)
  from assms(2) have obj: "obj = \<lparr>io_name = nm, io_version = fp_version p, io_year = fp_year p,
           io_iosystem = tag, io_Z = io_Z obj, io_Y = io_Y obj, io_unit = io_unit obj,
           io_satellite =
             \<lparr>ext_name = ''Satellite Accounts'', ext_F = ext_F (io_satellite obj),
              ext_F_hh = ext_F_hh (io_satellite obj),
              ext_unit = ext_unit (io_satellite obj)\<rparr>\<rparr>"
    by (cases obj, cases "io_satellite obj") (simp add: complete_object_def)
  have "parse_body w c path nm tag st = Inr (obj,
          add_fileio
            (MRIOMetaData (dirname w path) ''MRIO parsed from NTNU mat structure''
               nm tag (fp_version p))
            (''MAT MRIO structure parsed from '' @ path))"
    unfolding parse_body_def
    using assms(3)
    by (simp add: secs ll idx tables units lookup_global_def obj [symmetric])
  then show ?thesis ..
qed


lemma label_pairs_nonempty: "a \<noteq> [] \<Longrightarrow> index_ok a b \<Longrightarrow> label_pairs a b \<noteq> []"
  by (cases a; cases b) (auto simp: index_ok_def label_pairs_def)

lemma complete_consistent:
  assumes "file_holds c st p" "complete_object nm tag p obj"
  shows "consistent obj \<and> populated obj"
proof -
  from assms(2) have frames:
    "DataFrame (dense_form (fp_Z p))
       (label_pairs (fp_reg p) (fp_sec p)) (label_pairs (fp_reg p) (fp_sec p))
       = Inr (io_Z obj)"
    "DataFrame (dense_form (fp_Y p))
       (label_pairs (fp_reg p) (fp_sec p)) (label_pairs (fp_fd_reg p) (fp_fd_cat p))
       = Inr (io_Y obj)"
    "DataFrame (fp_mon_unit p) (label_pairs (fp_reg p) (fp_sec p)) unit_columns
       = Inr (io_unit obj)"
    "DataFrame (dense_form (fp_F p))
       (label_pairs (fp_names p) (fp_resolved p)) (label_pairs (fp_reg p) (fp_sec p))
       = Inr (ext_F (io_satellite obj))"
    "DataFrame (dense_form (fp_F_hh p))
       (label_pairs (fp_names p) (fp_resolved p)) (label_pairs (fp_fd_reg p) (fp_fd_cat p))
       = Inr (ext_F_hh (io_satellite obj))"
    "DataFrame (PList (stress_unit (zip (fp_units p) (fp_comps p))))
       (label_pairs (fp_names p) (fp_resolved p)) unit_columns
       = Inr (ext_unit (io_satellite obj))"
    and ok: "index_ok (fp_reg p) (fp_sec p)" "index_ok (fp_fd_reg p) (fp_fd_cat p)"
      "index_ok (fp_names p) (fp_resolved p)"
    by (simp_all add: complete_object_def)
  from assms(1) have "fp_reg p \<noteq> []" "fp_fd_reg p \<noteq> []" "fp_names p \<noteq> []"
    by (auto simp: file_holds_def dest: label_column_nonempty)
  with ok have ne: "label_pairs (fp_reg p) (fp_sec p) \<noteq> []"
    "label_pairs (fp_fd_reg p) (fp_fd_cat p) \<noteq> []"
    "label_pairs (fp_names p) (fp_resolved p) \<noteq> []"
    by (simp_all add: label_pairs_nonempty)
  note shapes = frames [THEN DataFrame_Inr]
  from shapes have "consistent obj"
    by (simp add: consistent_def)
  moreover from shapes ne have "populated obj"
    by (simp add: populated_def)
  ultimately show ?thesis ..
qed

subsection \<open>A missing sentinel and missing fields\<close>









subsection \<open>The claims\<close>

lemma logging_unbound: "''logging'' \<notin> set module_names"
  by (simp add: module_names_def)

text \<open>
  C1. In the namespace the module's own statements build, every call of \<open>parse_mat\<close>,
  whatever the path, the name, the system tag and the field map, raises
  \<open>NameError\<close> for \<open>logging\<close> right after the path is normalised: no file is opened,
  the state is as before, and no object is returned.
\<close>

theorem parse_mat_raises_NameError:
  "parse_mat (w\<lparr>globals := module_names\<rparr>) mat_file nm io_system struct =
     (Inl (NameError ''logging''), w\<lparr>globals := module_names\<rparr>)"
  by (simp add: parse_mat_def parse_mat_frame_def lookup_global_def module_names_def)

text \<open>
  C8. Whatever the file holds and whatever system tag the caller passes, the tag of a
  returned object is the caller's: the function reads it from its parameter, never
  from the container.
\<close>

theorem parse_mat_system_tag:
  "fst (parse_mat w mat_file nm io_system struct) = Inr obj \<Longrightarrow> io_iosystem obj = io_system"
  by (erule parse_matE, erule parse_bodyE) simp

theorem parse_mat_system_tag_witness:
  "fst (parse_mat logging_world ''/data/./mrio.mat'' ''nm'' (PStr ''pxp'') MAT_STRUCTURE_addr)
     = Inr example_object \<and>
   io_iosystem example_object = PStr ''pxp''"
  using parse_mat_system_tag [OF example_run] example_run by simp

text \<open>
  C10. A call changes nothing but the log of the files read, which gains at most the
  normalised input path: the names of the module, every dict (the one bound to
  \<open>MAT_STRUCTURE\<close> and the caller's \<open>struct\<close> among them) and the files are after
  the call what they were before it.
\<close>

theorem parse_mat_frame_condition:
  "snd (parse_mat w mat_file nm io_system struct) = w \<or>
   snd (parse_mat w mat_file nm io_system struct) =
     w\<lparr>opened := opened w @ [normpath w mat_file]\<rparr>"
  by (simp add: parse_mat_def parse_mat_frame_def loadmat_def split: sum.splits prod.splits)

text \<open>
  C5, as the code has it. When a call returns an object, the flow table is square
  with as many rows as the file has monetary labels, and the final-demand table has
  the same number of rows and as many columns as the file has final-demand labels;
  the data of both has the shape of the labels. And if, in the file of such a call,
  the matrix under one of the four matrix fields is replaced by an array or a sparse
  matrix whose dimensions are not the lengths of its two label sequences, the call
  raises \<open>ValueError\<close> (the shape error of pandas) and returns no object, provided
  the data section is not the section the field map names as the meta section.
\<close>

theorem tables_match_labels:
  assumes ok: "fst (parse_mat w mat_file nm io_system struct) = Inr obj"
  shows "(\<exists>c mat_meta secs cats.
            files w (normpath w mat_file) = Inr c \<and>
            ebind (struct_key (dicts w struct) ''meta'') (dict_getitem c) = Inr mat_meta \<and>
            label_column mat_meta (dicts w struct) ''mon_labels'' ''mon_sec_slice'' = Inr secs \<and>
            label_column mat_meta (dicts w struct) ''fd_labels'' ''fd_cat_slice'' = Inr cats \<and>
            label_dims (io_Z obj) = (length secs, length secs) \<and>
            label_dims (io_Y obj) = (length secs, length cats)) \<and>
         table_ok (io_Z obj) \<and> table_ok (io_Y obj) \<and>
         (files w (normpath w mat_file) = Inr c \<and>
          struct_key (dicts w struct) ''data'' = Inr kd \<and> c kd = Some (PStruct fs) \<and>
          struct_key (dicts w struct) ''meta'' \<noteq> Inr kd \<and>
          K \<in> set matrix_keys \<and> struct_key (dicts w struct) K = Inr kf \<and>
          dims m' = Some d \<and> d \<noteq> label_dims (table_of K obj) \<longrightarrow>
          fst (parse_mat
                (w\<lparr>files := (files w)(normpath w mat_file :=
                     Inr (c(kd \<mapsto> PStruct ((kf, m') # fs))))\<rparr>)
                mat_file nm io_system struct) = Inl ValueError)"
  using ok
proof (rule parse_matE)
  fix c0 meta
  let ?st = "dicts w struct" and ?p = "normpath w mat_file"
  assume c0: "files w ?p = Inr c0"
    and names: "''os'' \<in> set (globals w)" "''logging'' \<in> set (globals w)" "''scipy'' \<in> set (globals w)"
  assume "parse_body w c0 ?p nm io_system ?st = Inr (obj, meta)"
  then show ?thesis
  proof (rule parse_bodyE)
    fix mat_io mat_meta ll mon fd srow ver yr dZ dY dF dFhh dU dFU
    assume data: "ebind (struct_key ?st ''data'') (dict_getitem c0) = Inr mat_io"
      and meta: "ebind (struct_key ?st ''meta'') (dict_getitem c0) = Inr mat_meta"
      and ll: "read_labels mat_meta ?st = Inr ll"
      and idx: "build_indices w ll = Inr (mon, fd, srow)"
      and ver: "meta_field mat_meta ?st ''version'' = Inr ver"
      and yr: "meta_field mat_meta ?st ''year'' = Inr yr"
      and tZ: "read_table mat_io ?st ''Z'' mon mon = Inr dZ"
      and tY: "read_table mat_io ?st ''Y'' mon fd = Inr dY"
      and tF: "read_table mat_io ?st ''F'' srow mon = Inr dF"
      and tFhh: "read_table mat_io ?st ''F_hh'' srow fd = Inr dFhh"
      and fr: "(obj, meta) =
          (\<lparr>io_name = nm, io_version = ver, io_year = yr,
            io_iosystem = io_system, io_Z = dZ, io_Y = dY, io_unit = dU,
            io_satellite =
              \<lparr>ext_name = ''Satellite Accounts'', ext_F = dF, ext_F_hh = dFhh,
               ext_unit = dFU\<rparr>\<rparr>,
           add_fileio
             (MRIOMetaData (dirname w ?p)
                ''MRIO parsed from NTNU mat structure'' nm io_system ver)
             (''MAT MRIO structure parsed from '' @ ?p))"
    have obj: "io_Z obj = dZ" "io_Y obj = dY" "ext_F (io_satellite obj) = dF"
      "ext_F_hh (io_satellite obj) = dFhh"
      using fr by simp_all
    note shZ = read_table_Inr [OF tZ] and shY = read_table_Inr [OF tY]
      and shF = read_table_Inr [OF tF] and shFhh = read_table_Inr [OF tFhh]
    from ll obtain sec reg fd_cat fd_reg where
      sec: "label_column mat_meta ?st ''mon_labels'' ''mon_sec_slice'' = Inr sec"
      and reg: "label_column mat_meta ?st ''mon_labels'' ''mon_reg_slice'' = Inr reg"
      and cat: "label_column mat_meta ?st ''fd_labels'' ''fd_cat_slice'' = Inr fd_cat"
      and fdr: "label_column mat_meta ?st ''fd_labels'' ''fd_reg_slice'' = Inr fd_reg"
      and ll_sec: "ll_sec ll = sec" "ll_reg ll = reg" "ll_fd_cat ll = fd_cat" "ll_fd_reg ll = fd_reg"
      by (rule read_labelsE) simp
    have bi: "length (ll_reg ll) = length (ll_sec ll) \<and>
        mon = map (\<lambda>(x, y). [x, y]) (zip (ll_reg ll) (ll_sec ll)) \<and>
        length (ll_fd_reg ll) = length (ll_fd_cat ll) \<and>
        fd = map (\<lambda>(x, y). [x, y]) (zip (ll_fd_reg ll) (ll_fd_cat ll)) \<and>
        length (ll_stress_names ll) = length (ll_stress_comp ll) \<and>
        srow = map (\<lambda>(x, y). [x, y]) (zip (ll_stress_names ll) (ll_stress_comp ll))"
      using idx by (rule build_indicesE) simp
    have lens: "length mon = length sec" "length fd = length fd_cat"
      using bi by (simp_all add: ll_sec)
    have ne: "mon \<noteq> []" "fd \<noteq> []" "srow \<noteq> []"
      using bi read_labels_nonempty [OF ll] by auto
    have part1: "\<exists>c mat_meta secs cats.
            files w ?p = Inr c \<and>
            ebind (struct_key ?st ''meta'') (dict_getitem c) = Inr mat_meta \<and>
            label_column mat_meta ?st ''mon_labels'' ''mon_sec_slice'' = Inr secs \<and>
            label_column mat_meta ?st ''fd_labels'' ''fd_cat_slice'' = Inr cats \<and>
            label_dims (io_Z obj) = (length secs, length secs) \<and>
            label_dims (io_Y obj) = (length secs, length cats)"
      using c0 meta sec cat shZ shY lens by (auto simp: obj label_dims_def)
    have part2: "fst (parse_mat
                (w\<lparr>files := (files w)(?p := Inr (c(kd \<mapsto> PStruct ((kf, m') # fs))))\<rparr>)
                mat_file nm io_system struct) = Inl ValueError"
      if c: "files w ?p = Inr c" and kd: "struct_key ?st ''data'' = Inr kd"
        and io: "c kd = Some (PStruct fs)" and km: "struct_key ?st ''meta'' \<noteq> Inr kd"
        and K: "K \<in> set matrix_keys" and kf: "struct_key ?st K = Inr kf"
        and d: "dims m' = Some d" "d \<noteq> label_dims (table_of K obj)"
    proof -
      let ?io = "PStruct ((kf, m') # fs)"
      let ?c = "c(kd \<mapsto> ?io)"
      from c c0 have [simp]: "c0 = c" by simp
      from data kd io have mat_io: "mat_io = PStruct fs"
        by (simp add: dict_getitem_def)
      have data': "ebind (struct_key ?st ''data'') (dict_getitem ?c) = Inr ?io"
        using kd by (simp add: dict_getitem_def)
      have meta': "ebind (struct_key ?st ''meta'') (dict_getitem ?c) = Inr mat_meta"
        using km meta by (cases "struct_key ?st ''meta''") (auto simp: dict_getitem_def)
      have A: "e = ValueError"
        if "read_table ?io ?st K' ix cs = Inl e" "read_table mat_io ?st K' ix' cs' = Inr t"
        for K' ix cs ix' cs' e t
      proof (cases "struct_key ?st K'")
        case (Inl e')
        with that(2) show ?thesis
          by (simp add: read_table_def meta_field_def mat_io)
      next
        case (Inr k')
        with that show ?thesis
          by (cases "k' = kf"; cases "map_of fs k'")
             (auto simp: read_table_def meta_field_def mat_io dict_getitem_def
               dest: DataFrame_error)
      qed
      have B: "read_table ?io ?st K ix cs = Inl ValueError"
        if "ix \<noteq> []" "d \<noteq> (length ix, length cs)" for ix cs
        using that kf d(1) unfolding read_table_def meta_field_def
        by (simp add: dict_getitem_def DataFrame_mismatch)
      have AZ: "e = ValueError" if "read_table ?io ?st ''Z'' mon mon = Inl e" for e
        using that tZ by (rule A)
      have AY: "e = ValueError" if "read_table ?io ?st ''Y'' mon fd = Inl e" for e
        using that tY by (rule A)
      have AF: "e = ValueError" if "read_table ?io ?st ''F'' srow mon = Inl e" for e
        using that tF by (rule A)
      have BZ: "read_table ?io ?st ''Z'' mon mon = Inl ValueError" if "K = ''Z''"
        using B [of mon mon] ne d(2) shZ that by (simp add: table_of_def label_dims_def obj)
      have BY: "read_table ?io ?st ''Y'' mon fd = Inl ValueError" if "K = ''Y''"
        using B [of mon fd] ne d(2) shY that by (simp add: table_of_def label_dims_def obj)
      have BF: "read_table ?io ?st ''F'' srow mon = Inl ValueError" if "K = ''F''"
        using B [of srow mon] ne d(2) shF that by (simp add: table_of_def label_dims_def obj)
      have BFhh: "read_table ?io ?st ''F_hh'' srow fd = Inl ValueError" if "K = ''F_hh''"
        using B [of srow fd] ne d(2) shFhh that by (simp add: table_of_def label_dims_def obj)
      from K consider "K = ''Z''" | "K = ''Y''" | "K = ''F''" | "K = ''F_hh''"
        by (auto simp: matrix_keys_def)
      then have body: "parse_body w ?c ?p nm io_system ?st = Inl ValueError"
      proof cases
        case 1
        show ?thesis
          unfolding parse_body_def
          by (simp add: data' meta' ll idx ver yr BZ [OF 1])
      next
        case 2
        show ?thesis
          unfolding parse_body_def
          apply (simp add: data' meta' ll idx ver yr)
          apply (rule ebind_fail_cases, erule AZ)
          apply (simp add: BY [OF 2])
          done
      next
        case 3
        show ?thesis
          unfolding parse_body_def
          apply (simp add: data' meta' ll idx ver yr)
          apply (rule ebind_fail_cases, erule AZ)
          apply (rule ebind_fail_cases, erule AY)
          apply (simp add: BF [OF 3])
          done
      next
        case 4
        show ?thesis
          unfolding parse_body_def
          apply (simp add: data' meta' ll idx ver yr)
          apply (rule ebind_fail_cases, erule AZ)
          apply (rule ebind_fail_cases, erule AY)
          apply (rule ebind_fail_cases, erule AF)
          apply (simp add: BFhh [OF 4])
          done
      qed
      show ?thesis
        using names body
        by (simp add: parse_mat_def parse_mat_frame_def loadmat_def lookup_global_def)
    qed
    from part1 part2 shZ shY show ?thesis
      by (simp add: obj)
  qed
qed

theorem tables_match_labels_witness:
  "fst (parse_mat logging_world ''/data/./mrio.mat'' ''nm'' (PStr ''pxp'') MAT_STRUCTURE_addr)
     = Inr example_object \<and>
   label_dims (io_Z example_object) = (2, 2) \<and> label_dims (io_Y example_object) = (2, 2) \<and>
   table_ok (io_Z example_object) \<and> table_ok (io_Y example_object) \<and>
   dims example_wide = Some (3, 3) \<and>
   fst (parse_mat
         (logging_world\<lparr>files := (files logging_world)
            (normpath logging_world ''/data/./mrio.mat'' :=
               Inr ((example_container example_matrix (example_labsF (PArr1 [])))
                      (''IO'' \<mapsto> PStruct ((''Z'', example_wide) #
                                       example_fields example_matrix))))\<rparr>)
         ''/data/./mrio.mat'' ''nm'' (PStr ''pxp'') MAT_STRUCTURE_addr)
     = Inl ValueError"
proof -
  let ?c = "example_container example_matrix (example_labsF (PArr1 []))"
  let ?fs = "example_fields example_matrix"
  have loaded: "files logging_world (normpath logging_world ''/data/./mrio.mat'') = Inr ?c"
    by (simp add: logging_world_def example_world_def example_files_def posix_normpath_def)
  have keys: "struct_key (dicts logging_world MAT_STRUCTURE_addr) ''data'' = Inr ''IO''"
    "struct_key (dicts logging_world MAT_STRUCTURE_addr) ''meta'' \<noteq> Inr ''IO''"
    "struct_key (dicts logging_world MAT_STRUCTURE_addr) ''Z'' = Inr ''Z''"
    by (simp_all add: logging_world_def example_world_def MAT_STRUCTURE_def struct_key_def
        dict_getitem_def)
  have io: "?c ''IO'' = Some (PStruct ?fs)"
    by (simp add: example_container_def example_io_def)
  have K: "''Z'' \<in> set matrix_keys"
    by (simp add: matrix_keys_def)
  have d: "dims example_wide = Some (3, 3)"
    by (simp add: example_wide_def)
  have labels: "label_dims (io_Z example_object) = (2, 2)"
    "label_dims (io_Y example_object) = (2, 2)"
    "label_dims (table_of ''Z'' example_object) = (2, 2)"
    by (simp_all add: label_dims_def table_of_def object_defs)
  from tables_match_labels [OF example_run, where c = ?c and kd = "''IO''" and fs = ?fs
      and K = "''Z''" and kf = "''Z''" and m' = example_wide and d = "(3, 3)"]
    example_run loaded keys io K d labels
  show ?thesis by simp
qed

text \<open>
  The claim as stated fails on a file whose flow matrix has one row and one column
  while there are two monetary labels: the matrix arrives as a scalar, pandas fills
  the table of two rows and two columns with it, and the call returns an object
  instead of raising a shape error. (In the module's own namespace the same call
  raises \<open>NameError\<close>, as every call does, which is no shape error either.)
\<close>

theorem scalar_matrix_counterexample:
  "dims (PNum 7) = None \<and>
   fst (parse_mat (scalar_world (''logging'' # module_names))
         ''/data/./mrio.mat'' ''nm'' (PStr ''pxp'') MAT_STRUCTURE_addr)
     = Inr (example_object
             \<lparr>io_Z := example_table example_mon example_mon
                        [[PNum 7, PNum 7], [PNum 7, PNum 7]]\<rparr>) \<and>
   fst (parse_mat (scalar_world module_names)
         ''/data/./mrio.mat'' ''nm'' (PStr ''pxp'') MAT_STRUCTURE_addr)
     = Inl (NameError ''logging'')"
  by (simp add: scalar_world_def example_defs run_defs object_defs numeral_2_eq_2)

text \<open>
  C4. On the example file, in a namespace that binds \<open>logging\<close>, the call builds the
  domain object and the provenance record (the directory of the file, the fixed
  description, the caller's name and system tag, the version of the file, one log
  entry naming the path), and the \<open>return\<close> statement hands over the domain object
  alone: the record is neither attached to it nor returned beside it. In the
  module's own namespace the same call raises \<open>NameError\<close> before anything is built.
\<close>

theorem provenance_record_dropped:
  "fst (parse_mat_frame logging_world ''/data/./mrio.mat'' ''nm'' (PStr ''pxp'') MAT_STRUCTURE_addr)
     = Inr (example_object, example_record) \<and>
   fst (parse_mat logging_world ''/data/./mrio.mat'' ''nm'' (PStr ''pxp'') MAT_STRUCTURE_addr)
     = Inr example_object \<and>
   fst (parse_mat (logging_world\<lparr>globals := module_names\<rparr>)
         ''/data/./mrio.mat'' ''nm'' (PStr ''pxp'') MAT_STRUCTURE_addr)
     = Inl (NameError ''logging'')"
  by (simp add: example_record_def example_defs run_defs object_defs)

text \<open>
  C9. On the container of the scenario (regions R1, R2, sectors S1, S2, flow matrix
  1 2 / 3 4) the call raises \<open>NameError\<close> in the module's own namespace and yields no
  flow table. Past the unbound name, that is with \<open>logging\<close> bound, the code yields
  the table the claim describes: the label pairs (R1, S1), (R2, S2) in the order of
  the file on both axes, and the values of the file unchanged.
\<close>

theorem scenario_raises_NameError:
  "fst (parse_mat (logging_world\<lparr>globals := module_names\<rparr>)
         ''/data/./mrio.mat'' ''nm'' (PStr ''pxp'') MAT_STRUCTURE_addr)
     = Inl (NameError ''logging'') \<and>
   fst (parse_mat logging_world ''/data/./mrio.mat'' ''nm'' (PStr ''pxp'') MAT_STRUCTURE_addr)
     = Inr example_object \<and>
   df_index (io_Z example_object) = [[PStr ''R1'', PStr ''S1''], [PStr ''R2'', PStr ''S2'']] \<and>
   df_columns (io_Z example_object) = [[PStr ''R1'', PStr ''S1''], [PStr ''R2'', PStr ''S2'']] \<and>
   df_data (io_Z example_object) = [[PNum 1, PNum 2], [PNum 3, PNum 4]]"
  by (simp add: example_defs run_defs object_defs)

text \<open>
  C2, as the code has it. In a returned object, for a field map whose sentinel is
  \<open>n/a\<close>, the stressor rows are resolved from their sliced cells as follows. The
  compartment of a row is the sentinel when its unit cell is empty and its sliced
  compartment otherwise. The unit of a row is its sliced compartment when its unit
  cell is empty, its unit cell when that is a non-empty string, and its sliced
  compartment again when the unit cell is not empty and not a string. (The file
  delivers an empty cell as an empty array, never as the empty string, and the rule
  for the units is stated for such files.) So a row with the compartment \<open>air\<close> and
  an empty unit cell gets the compartment \<open>n/a\<close> and the unit \<open>air\<close>.
\<close>

theorem stressor_rows_resolved:
  assumes "fst (parse_mat w mat_file nm io_system struct) = Inr obj"
    and "dicts w struct ''empty_comp'' = Some (FKey ''n/a'')"
  shows "\<exists>c mat_meta names comps units.
     files w (normpath w mat_file) = Inr c \<and>
     ebind (struct_key (dicts w struct) ''meta'') (dict_getitem c) = Inr mat_meta \<and>
     label_column mat_meta (dicts w struct) ''stress_labels'' ''stress_name_slice'' = Inr names \<and>
     label_column mat_meta (dicts w struct) ''stress_labels'' ''stress_comp_slice'' = Inr comps \<and>
     label_column mat_meta (dicts w struct) ''stress_labels'' ''stress_unit_slice'' = Inr units \<and>
     length names = length units \<and> length comps = length units \<and>
     df_index (ext_F (io_satellite obj)) =
       map (\<lambda>(n, u, c). [n, resolved_comp (PStr ''n/a'') u c]) (zip names (zip units comps)) \<and>
     (PStr [] \<notin> set units \<longrightarrow>
      df_data (ext_unit (io_satellite obj)) =
        map (\<lambda>(u, c). [resolved_unit u c]) (zip units comps))"
  using assms(1)
proof (rule parse_matE)
  fix c meta
  assume c: "files w (normpath w mat_file) = Inr c"
  assume "parse_body w c (normpath w mat_file) nm io_system (dicts w struct) = Inr (obj, meta)"
  then show ?thesis
  proof (rule parse_bodyE)
    fix mat_io mat_meta ll mon fd srow ver yr dZ dY dF dFhh dU dFU
    assume meta: "ebind (struct_key (dicts w struct) ''meta'') (dict_getitem c) = Inr mat_meta"
      and ll: "read_labels mat_meta (dicts w struct) = Inr ll"
      and idx: "build_indices w ll = Inr (mon, fd, srow)"
      and dF: "read_table mat_io (dicts w struct) ''F'' srow mon = Inr dF"
      and dFU: "DataFrame_of_list (ll_stress_unit ll) srow unit_columns = Inr dFU"
      and fr: "(obj, meta) =
          (\<lparr>io_name = nm, io_version = ver, io_year = yr,
            io_iosystem = io_system, io_Z = dZ, io_Y = dY, io_unit = dU,
            io_satellite =
              \<lparr>ext_name = ''Satellite Accounts'', ext_F = dF, ext_F_hh = dFhh,
               ext_unit = dFU\<rparr>\<rparr>,
           add_fileio
             (MRIOMetaData (dirname w (normpath w mat_file))
                ''MRIO parsed from NTNU mat structure'' nm io_system ver)
             (''MAT MRIO structure parsed from '' @ normpath w mat_file))"
    from ll show ?thesis
    proof (rule read_labelsE)
      fix sec reg fd_cat fd_reg names comps units cs
      assume cols:
        "label_column mat_meta (dicts w struct) ''stress_labels'' ''stress_name_slice'' = Inr names"
        "label_column mat_meta (dicts w struct) ''stress_labels'' ''stress_comp_slice'' = Inr comps"
        "label_column mat_meta (dicts w struct) ''stress_labels'' ''stress_unit_slice'' = Inr units"
        and cs: "stress_comp (dicts w struct) (zip units comps) = Inr cs"
        and ll_eq: "ll = \<lparr>ll_sec = sec, ll_reg = reg, ll_fd_cat = fd_cat, ll_fd_reg = fd_reg,
          ll_stress_names = names, ll_stress_comp = cs,
          ll_stress_unit = stress_unit (zip units comps)\<rparr>"
      from cols[THEN label_column_Inr] have len: "length names = length units" "length comps = length units"
        by auto
      from stress_comp_Inr[OF cs assms(2)]
      have cs_eq: "cs = map (\<lambda>(u, c). resolved_comp (PStr ''n/a'') u c) (zip units comps)"
        by simp
      from idx have srow: "srow = map (\<lambda>(x, y). [x, y]) (zip names cs)"
        by (rule build_indicesE) (simp add: ll_eq)
      have index: "df_index dF = map (\<lambda>(n, u, c). [n, resolved_comp (PStr ''n/a'') u c]) (zip names (zip units comps))"
        using read_table_Inr[OF dF] srow cs_eq
        by (simp add: zip_map2 case_prod_unfold)
      have data: "df_data dFU = map (\<lambda>(u, c). [resolved_unit u c]) (zip units comps)"
        if "PStr [] \<notin> set units"
        using DataFrame_of_list_data[OF dFU] stress_unit_resolved [OF that, of comps]
        by (simp add: ll_eq case_prod_unfold)
      from c meta cols len index data fr show ?thesis
        by auto
    qed
  qed
qed


theorem stressor_rows_resolved_witness:
  "fst (parse_mat logging_world ''/data/./mrio.mat'' ''nm'' (PStr ''pxp'') MAT_STRUCTURE_addr)
     = Inr example_object \<and>
   dicts logging_world MAT_STRUCTURE_addr ''empty_comp'' = Some (FKey ''n/a'') \<and>
   label_column (example_meta (example_labsF (PArr1 []))) MAT_STRUCTURE
     ''stress_labels'' ''stress_comp_slice'' = Inr [PStr ''air'', PStr ''water''] \<and>
   label_column (example_meta (example_labsF (PArr1 []))) MAT_STRUCTURE
     ''stress_labels'' ''stress_unit_slice'' = Inr [PArr1 [], PStr ''kg''] \<and>
   PStr [] \<notin> set [PArr1 [], PStr ''kg''] \<and>
   df_index (ext_F (io_satellite example_object)) =
     [[PStr ''CO2'', resolved_comp (PStr ''n/a'') (PArr1 []) (PStr ''air'')],
      [PStr ''CH4'', resolved_comp (PStr ''n/a'') (PStr ''kg'') (PStr ''water'')]] \<and>
   df_data (ext_unit (io_satellite example_object)) =
     [[resolved_unit (PArr1 []) (PStr ''air'')], [resolved_unit (PStr ''kg'') (PStr ''water'')]] \<and>
   df_index (ext_F (io_satellite example_object)) =
     [[PStr ''CO2'', PStr ''n/a''], [PStr ''CH4'', PStr ''water'']] \<and>
   df_data (ext_unit (io_satellite example_object)) = [[PStr ''air''], [PStr ''kg'']]"
proof -
  let ?st = "dicts logging_world MAT_STRUCTURE_addr"
  have st: "?st = MAT_STRUCTURE"
    by (simp add: logging_world_def example_world_def)
  have sentinel: "?st ''empty_comp'' = Some (FKey ''n/a'')"
    by (simp add: st MAT_STRUCTURE_def)
  have comps: "label_column (example_meta (example_labsF (PArr1 []))) MAT_STRUCTURE
     ''stress_labels'' ''stress_comp_slice'' = Inr [PStr ''air'', PStr ''water'']"
    and units: "label_column (example_meta (example_labsF (PArr1 []))) MAT_STRUCTURE
     ''stress_labels'' ''stress_unit_slice'' = Inr [PArr1 [], PStr ''kg'']"
    and names: "label_column (example_meta (example_labsF (PArr1 []))) MAT_STRUCTURE
     ''stress_labels'' ''stress_name_slice'' = Inr [PStr ''CO2'', PStr ''CH4'']"
    by (simp_all add: label_column_def meta_field_def struct_key_def dict_getitem_def
        example_meta_def example_labsF_def MAT_STRUCTURE_def)
  from stressor_rows_resolved [OF example_run sentinel]
  obtain c mat_meta ns cs us where
    c: "files logging_world (normpath logging_world ''/data/./mrio.mat'') = Inr c"
    and m: "ebind (struct_key ?st ''meta'') (dict_getitem c) = Inr mat_meta"
    and cols: "label_column mat_meta ?st ''stress_labels'' ''stress_name_slice'' = Inr ns"
      "label_column mat_meta ?st ''stress_labels'' ''stress_comp_slice'' = Inr cs"
      "label_column mat_meta ?st ''stress_labels'' ''stress_unit_slice'' = Inr us"
    and index: "df_index (ext_F (io_satellite example_object)) =
       map (\<lambda>(n, u, c). [n, resolved_comp (PStr ''n/a'') u c]) (zip ns (zip us cs))"
    and data: "PStr [] \<notin> set us \<longrightarrow>
      df_data (ext_unit (io_satellite example_object)) =
        map (\<lambda>(u, c). [resolved_unit u c]) (zip us cs)"
    by blast
  from c have "c = example_container example_matrix (example_labsF (PArr1 []))"
    by (simp add: logging_world_def example_world_def example_files_def posix_normpath_def)
  with m have "mat_meta = example_meta (example_labsF (PArr1 []))"
    by (simp add: st example_container_def MAT_STRUCTURE_def struct_key_def dict_getitem_def)
  with cols names comps units have eqs: "ns = [PStr ''CO2'', PStr ''CH4'']"
    "cs = [PStr ''air'', PStr ''water'']" "us = [PArr1 [], PStr ''kg'']"
    by (simp_all add: st)
  from index data example_run sentinel comps units show ?thesis
    by (simp add: eqs resolved_comp_def resolved_unit_def)
qed

text \<open>
  The claim as stated fails on a row whose unit cell is not empty and not a string,
  here an array of two numbers: the claim has the sliced unit returned unchanged, the
  code (line 130) returns the sliced compartment \<open>air\<close> in its place. (In the
  module's own namespace the same call raises \<open>NameError\<close>, as every call does.)
\<close>

theorem numeric_unit_counterexample:
  "py_len (PArr1 [PNum 1, PNum 2]) = Inr 2 \<and>
   stress_comp MAT_STRUCTURE [(PArr1 [PNum 1, PNum 2], PStr ''air'')] = Inr [PStr ''air''] \<and>
   stress_unit [(PArr1 [PNum 1, PNum 2], PStr ''air'')] = [PStr ''air''] \<and>
   fst (parse_mat (numeric_unit_world (''logging'' # module_names))
         ''/data/./mrio.mat'' ''nm'' (PStr ''pxp'') MAT_STRUCTURE_addr)
     = Inr (example_object_of sliced_stress [[PStr ''air''], [PStr ''kg'']]) \<and>
   df_data (ext_unit (io_satellite (example_object_of sliced_stress [[PStr ''air''], [PStr ''kg'']])))
     \<noteq> [[PArr1 [PNum 1, PNum 2]], [PStr ''kg'']] \<and>
   fst (parse_mat (numeric_unit_world module_names)
         ''/data/./mrio.mat'' ''nm'' (PStr ''pxp'') MAT_STRUCTURE_addr)
     = Inl (NameError ''logging'')"
  by (simp add: numeric_unit_world_def sliced_stress_def example_defs run_defs object_defs)

text \<open>
  C7, as the code has it. Take a logical matrix with at least two rows and at least
  one column, none of whose cells is the negative zero, and a field map whose data
  section is not also its meta section. Made dense (lines 148, 157, 166 and 175), the
  sparse form of the matrix is the array of its rows, cell by cell; the dense form is
  passed on as it arrived, and it arrived as that same array when the matrix has at
  least two columns. A file that stores the matrix sparse in a field of a section and
  the file that stores it dense there give the same outcome of the call: the same
  object or the same error.
\<close>

theorem sparse_dense_same_result:
  assumes "matrix_rows r c rows" and "2 \<le> r" and "1 \<le> c"
    and "PSpecial NegZero \<notin> set (concat rows)"
    and "struct_key (dicts w struct) ''meta'' \<noteq> Inr kd"
  shows "dense_form (sparse_arrival r c rows) = PArr2 rows \<and>
         dense_form (dense_arrival r c rows) = dense_arrival r c rows \<and>
         (2 \<le> c \<longrightarrow> dense_arrival r c rows = PArr2 rows) \<and>
         fst (parse_mat
               (with_file w (normpath w mat_file)
                  (cont(kd \<mapsto> PStruct ((kf, sparse_arrival r c rows) # fs))))
               mat_file nm io_system struct)
       = fst (parse_mat
               (with_file w (normpath w mat_file)
                  (cont(kd \<mapsto> PStruct ((kf, dense_arrival r c rows) # fs))))
               mat_file nm io_system struct)"
proof -
  have sparse: "dense_form (sparse_arrival r c rows) = PArr2 rows"
    using assms(1,4) by (rule dense_form_sparse_arrival)
  have dense: "dense_form (dense_arrival r c rows) = dense_arrival r c rows"
    using assms(1-3) by (rule dense_form_dense_arrival)
  have same: "DataFrame (dense_form (sparse_arrival r c rows)) idx cols
      = DataFrame (dense_form (dense_arrival r c rows)) idx cols" for idx cols
    by (simp add: sparse dense DataFrame_dense_arrival [OF assms(1-3)])
  have full: "2 \<le> c \<longrightarrow> dense_arrival r c rows = PArr2 rows"
    using assms(2) by (simp add: dense_arrival_def)
  from parse_body_field_cong [of "sparse_arrival r c rows" "dense_arrival r c rows", OF same assms(5)]
    sparse dense full show ?thesis
    by (simp add: parse_mat_def parse_mat_frame_def loadmat_def lookup_global_def with_file_def)
qed

theorem sparse_dense_same_result_witness:
  "matrix_rows 2 2 example_rows \<and> (2::nat) \<le> 2 \<and> (1::nat) \<le> 2 \<and>
   PSpecial NegZero \<notin> set (concat example_rows) \<and>
   struct_key (dicts logging_world MAT_STRUCTURE_addr) ''meta'' \<noteq> Inr ''IO'' \<and>
   dense_form (sparse_arrival 2 2 example_rows) = PArr2 example_rows \<and>
   dense_arrival 2 2 example_rows = PArr2 example_rows \<and>
   fst (parse_mat
         (with_file logging_world (normpath logging_world ''/data/./mrio.mat'')
            ((example_container example_matrix (example_labsF (PArr1 [])))
               (''IO'' \<mapsto> PStruct ((''Z'', sparse_arrival 2 2 example_rows)
                                   # example_fields example_matrix))))
         ''/data/./mrio.mat'' ''nm'' (PStr ''pxp'') MAT_STRUCTURE_addr)
   = fst (parse_mat
         (with_file logging_world (normpath logging_world ''/data/./mrio.mat'')
            ((example_container example_matrix (example_labsF (PArr1 [])))
               (''IO'' \<mapsto> PStruct ((''Z'', dense_arrival 2 2 example_rows)
                                   # example_fields example_matrix))))
         ''/data/./mrio.mat'' ''nm'' (PStr ''pxp'') MAT_STRUCTURE_addr) \<and>
   fst (parse_mat
         (with_file logging_world (normpath logging_world ''/data/./mrio.mat'')
            ((example_container example_matrix (example_labsF (PArr1 [])))
               (''IO'' \<mapsto> PStruct ((''Z'', dense_arrival 2 2 example_rows)
                                   # example_fields example_matrix))))
         ''/data/./mrio.mat'' ''nm'' (PStr ''pxp'') MAT_STRUCTURE_addr)
   = Inr example_object"
proof -
  have rows: "matrix_rows 2 2 example_rows"
    by (simp add: matrix_rows_def example_rows_def)
  have nz: "PSpecial NegZero \<notin> set (concat example_rows)"
    by (simp add: example_rows_def)
  have meta: "struct_key (dicts logging_world MAT_STRUCTURE_addr) ''meta'' \<noteq> Inr ''IO''"
    by (simp add: logging_world_def example_world_def struct_key_def dict_getitem_def
        MAT_STRUCTURE_def)
  have dense: "fst (parse_mat
         (with_file logging_world (normpath logging_world ''/data/./mrio.mat'')
            ((example_container example_matrix (example_labsF (PArr1 [])))
               (''IO'' \<mapsto> PStruct ((''Z'', dense_arrival 2 2 example_rows)
                                   # example_fields example_matrix))))
         ''/data/./mrio.mat'' ''nm'' (PStr ''pxp'') MAT_STRUCTURE_addr)
   = Inr example_object"
    by (simp add: with_file_def dense_arrival_def example_defs run_defs object_defs)
  from sparse_dense_same_result [OF rows _ _ nz meta, of "''/data/./mrio.mat''"
      "example_container example_matrix (example_labsF (PArr1 []))" "''Z''"
      "example_fields example_matrix" "''nm''" "PStr ''pxp''"]
    rows nz meta dense
  show ?thesis
    by simp
qed

text \<open>
  The claim as stated fails on a matrix with a single cell. Stored dense, the cell
  arrives as a scalar (\<open>squeeze_me=True\<close>), with which pandas fills a table of the shape
  of the labels: the call returns an object. Stored sparse, the matrix arrives with
  its shape of one row and one column, which disagrees with the two monetary labels
  of the file: the call raises \<open>ValueError\<close>.
\<close>

theorem single_cell_counterexample:
  "matrix_rows 1 1 [[PNum 7]] \<and>
   dense_arrival 1 1 [[PNum 7]] = PNum 7 \<and>
   dense_form (sparse_arrival 1 1 [[PNum 7]]) = PArr2 [[PNum 7]] \<and>
   fst (parse_mat (arrival_world (dense_arrival 1 1 [[PNum 7]]))
         ''/data/./mrio.mat'' ''nm'' (PStr ''pxp'') MAT_STRUCTURE_addr)
     = Inr (example_object\<lparr>io_Z := example_table example_mon example_mon
              [[PNum 7, PNum 7], [PNum 7, PNum 7]]\<rparr>) \<and>
   fst (parse_mat (arrival_world (sparse_arrival 1 1 [[PNum 7]]))
         ''/data/./mrio.mat'' ''nm'' (PStr ''pxp'') MAT_STRUCTURE_addr)
     = Inl ValueError"
  by (simp add: arrival_world_def matrix_rows_def dense_arrival_def sparse_arrival_def
      upt_small numeral_2_eq_2 example_defs run_defs object_defs)

text \<open>
  C3. A call returns an object exactly when the names it reads are bound, the file
  loads, every part the function reads is in the file, and the object is the complete
  object for those parts: the caller's name and system tag, the version and the year
  of the file, and all six tables built from the file under its labels. A returned
  object is consistent (its tables have the shape of their labels and share the
  labels of their common axes) and none of its label sequences is empty. A call raises
  exactly when one of these steps fails, and then it returns no object: there is no
  outcome between the two.
\<close>

theorem parse_mat_all_or_nothing:
  "(fst (parse_mat w mat_file nm io_system struct) = Inr obj \<longleftrightarrow>
      names_bound w \<and>
      (\<exists>c p. files w (normpath w mat_file) = Inr c \<and> file_holds c (dicts w struct) p \<and>
             complete_object nm io_system p obj)) \<and>
   (fst (parse_mat w mat_file nm io_system struct) = Inr obj \<longrightarrow>
      consistent obj \<and> populated obj) \<and>
   ((\<exists>e. fst (parse_mat w mat_file nm io_system struct) = Inl e) \<longleftrightarrow>
      \<not> (names_bound w \<and>
         (\<exists>c p obj'. files w (normpath w mat_file) = Inr c \<and>
             file_holds c (dicts w struct) p \<and> complete_object nm io_system p obj')))"
proof -
  have returns: "fst (parse_mat w mat_file nm io_system struct) = Inr x \<longleftrightarrow>
      names_bound w \<and>
      (\<exists>c p. files w (normpath w mat_file) = Inr c \<and> file_holds c (dicts w struct) p \<and>
             complete_object nm io_system p x)" (is "?L x \<longleftrightarrow> ?N \<and> ?R x") for x
  proof
    assume "?L x"
    then show "?N \<and> ?R x"
    proof (rule parse_matE)
      fix c meta
      assume c: "files w (normpath w mat_file) = Inr c"
        and body: "parse_body w c (normpath w mat_file) nm io_system (dicts w struct) = Inr (x, meta)"
        and names: "''os'' \<in> set (globals w)" "''logging'' \<in> set (globals w)"
          "''scipy'' \<in> set (globals w)"
      from body have "''IOSystem'' \<in> set (globals w)" "''Extension'' \<in> set (globals w)"
        "''MRIOMetaData'' \<in> set (globals w)"
        by (rule parse_bodyE, simp)+
      moreover from body have "''pd'' \<in> set (globals w)"
        by (rule parse_bodyE) (auto elim: build_indicesE)
      ultimately have "?N"
        using names by (simp add: names_bound_def)
      moreover from parse_body_complete [OF body] c have "?R x"
        by blast
      ultimately show ?thesis ..
    qed
  next
    assume r: "?N \<and> ?R x"
    then obtain c p where c: "files w (normpath w mat_file) = Inr c"
      and p: "file_holds c (dicts w struct) p" "complete_object nm io_system p x"
      by blast
    from r have names: "''os'' \<in> set (globals w)" "''logging'' \<in> set (globals w)"
      "''scipy'' \<in> set (globals w)"
      and rest: "list_all (\<lambda>n. n \<in> set (globals w))
       [''logging'', ''pd'', ''IOSystem'', ''Extension'', ''MRIOMetaData'']"
      by (simp_all add: names_bound_def)
    from complete_parse_body [OF p rest, of "normpath w mat_file"]
    obtain meta where
      "parse_body w c (normpath w mat_file) nm io_system (dicts w struct) = Inr (x, meta)"
      by blast
    with c names show "?L x"
      by (simp add: parse_mat_def parse_mat_frame_def loadmat_def lookup_global_def)
  qed
  have shape: "consistent obj \<and> populated obj"
    if "fst (parse_mat w mat_file nm io_system struct) = Inr obj"
    using that unfolding returns by (auto dest: complete_consistent)
  have "(\<exists>e. fst (parse_mat w mat_file nm io_system struct) = Inl e) \<longleftrightarrow>
      \<not> (\<exists>x. fst (parse_mat w mat_file nm io_system struct) = Inr x)"
    by (cases "fst (parse_mat w mat_file nm io_system struct)") simp_all
  also have "\<dots> \<longleftrightarrow> \<not> (names_bound w \<and>
         (\<exists>c p obj'. files w (normpath w mat_file) = Inr c \<and>
             file_holds c (dicts w struct) p \<and> complete_object nm io_system p obj'))"
    unfolding returns by blast
  finally show ?thesis
    using returns [of obj] shape by blast
qed

theorem parse_mat_all_or_nothing_witness:
  "fst (parse_mat logging_world ''/data/./mrio.mat'' ''nm'' (PStr ''pxp'') MAT_STRUCTURE_addr)
     = Inr example_object \<and>
   names_bound logging_world \<and>
   files logging_world (normpath logging_world ''/data/./mrio.mat'')
     = Inr (example_container example_matrix (example_labsF (PArr1 []))) \<and>
   file_holds (example_container example_matrix (example_labsF (PArr1 [])))
     (dicts logging_world MAT_STRUCTURE_addr) example_parts \<and>
   complete_object ''nm'' (PStr ''pxp'') example_parts example_object \<and>
   consistent example_object \<and> populated example_object \<and>
   \<not> names_bound (logging_world\<lparr>globals := module_names\<rparr>) \<and>
   fst (parse_mat (logging_world\<lparr>globals := module_names\<rparr>)
         ''/data/./mrio.mat'' ''nm'' (PStr ''pxp'') MAT_STRUCTURE_addr)
     = Inl (NameError ''logging'')"
proof -
  have names: "names_bound logging_world"
    by (simp add: names_bound_def logging_world_def example_world_def module_names_def)
  have loaded: "files logging_world (normpath logging_world ''/data/./mrio.mat'')
     = Inr (example_container example_matrix (example_labsF (PArr1 [])))"
    by (simp add: logging_world_def example_world_def example_files_def posix_normpath_def)
  have parts: "file_holds (example_container example_matrix (example_labsF (PArr1 [])))
     (dicts logging_world MAT_STRUCTURE_addr) example_parts"
    by (simp add: file_holds_def example_parts_def example_defs struct_key_def dict_getitem_def
        label_column_def meta_field_def)
  have complete: "complete_object ''nm'' (PStr ''pxp'') example_parts example_object"
    by (simp add: complete_object_def example_parts_def index_ok_def label_pairs_def
        unit_columns_def stress_unit_def example_matrix_def object_defs)
  have unbound: "\<not> names_bound (logging_world\<lparr>globals := module_names\<rparr>)"
    by (simp add: names_bound_def module_names_def)
  from parse_mat_all_or_nothing [of logging_world "''/data/./mrio.mat''" "''nm''" "PStr ''pxp''"
      MAT_STRUCTURE_addr example_object] names loaded parts complete
  have "fst (parse_mat logging_world ''/data/./mrio.mat'' ''nm'' (PStr ''pxp'') MAT_STRUCTURE_addr)
     = Inr example_object" and "consistent example_object \<and> populated example_object"
    by blast+
  moreover
  from parse_mat_all_or_nothing [of "logging_world\<lparr>globals := module_names\<rparr>"
      "''/data/./mrio.mat''" "''nm''" "PStr ''pxp''" MAT_STRUCTURE_addr example_object] unbound
  obtain e where e: "fst (parse_mat (logging_world\<lparr>globals := module_names\<rparr>)
         ''/data/./mrio.mat'' ''nm'' (PStr ''pxp'') MAT_STRUCTURE_addr) = Inl e"
    by blast
  then have "fst (parse_mat (logging_world\<lparr>globals := module_names\<rparr>)
         ''/data/./mrio.mat'' ''nm'' (PStr ''pxp'') MAT_STRUCTURE_addr)
     = Inl (NameError ''logging'')"
    by (simp add: parse_mat_def parse_mat_frame_def lookup_global_def module_names_def)
  ultimately show ?thesis
    using names loaded parts complete unbound by simp
qed



end
